theory Spec2Isabelle
  imports Main
begin

section \<open>Data model of ClientSidePreparedStatement.cpp\<close>

text \<open>
  A \<open>SQLException\<close> carries a message, an SQL state and a vendor code.  The source only
  ever inspects the message (the first character, in \<open>executeInternalBatch\<close>).
\<close>

record SQLException =
  getMessage :: string
  getSQLState :: string
  getErrorCode :: int

text \<open>
  What a call can end with besides returning: a thrown \<open>SQLException\<close>, or an access
  \<open>v[i]\<close> to a \<open>std::vector\<close> with \<open>i \<ge> v.size()\<close>, which C++ leaves undefined.
  \<open>OutOfBounds i n\<close> records the index and the size of the vector at that access.
\<close>

datatype error = SQLError SQLException | OutOfBounds nat nat

text \<open>
  A \<open>ParameterHolder\<close> is known here only through \<open>toString()\<close>.  A slot of the
  parameter array is a \<open>Shared::ParameterHolder\<close>, a shared pointer: \<open>None\<close> is the
  null pointer, an unbound slot.  No function of this file writes through such a
  pointer; \<open>setParameter\<close> reseats it.
\<close>

datatype ParameterHolder = ParameterHolder (toString: string)

type_synonym slot = "ParameterHolder option"

record ClientPrepareResult =
  getParamCount :: nat

datatype ResultSetMetaData = MariaDbResultSetMetaData "string list"

datatype ParameterMetaData =
    MariaDbParameterMetaData "string list"
  | SimpleParameterMetaData nat

text \<open>
  The members of the class that this file reads or writes.  The last three are the
  values the constructors hand on to \<open>BasePrepareStatement\<close>.
\<close>

record ClientSidePreparedStatement =
  sqlQuery :: string
  prepareResult :: ClientPrepareResult
  parameters :: "slot list"
  parameterList :: "slot list list"
  hasLongData :: bool
  resultSetMetaData :: "ResultSetMetaData option"
  parameterMetaData :: "ParameterMetaData option"
  resultSetScrollType :: int
  resultSetConcurrency :: int
  autoGeneratedKeys :: int

text \<open>
  \<open>exceptionFactory->raiseStatementError(connection, this)->create(...)\<close> is code of
  another file: the factory is a parameter, with one function for each of the two
  overloads of \<open>create\<close> used here.
\<close>

record ExceptionFactory =
  create :: "string \<Rightarrow> SQLException"
  createWithState :: "string \<Rightarrow> string \<Rightarrow> SQLException"

text \<open>What \<open>setParameter\<close> reads from the protocol and the options for its message.\<close>

record ConnectionInfo =
  getServerThreadId :: int
  isMasterConnection :: bool
  maxQuerySizeToLog :: int

subsection \<open>\<open>std::to_string\<close>\<close>

definition digit_char :: "nat \<Rightarrow> char" where
  "digit_char d = ''0123456789'' ! (d mod 10)"

fun to_string_nat :: "nat \<Rightarrow> string" where
  "to_string_nat n =
     (if n < 10 then [digit_char n] else to_string_nat (n div 10) @ [digit_char (n mod 10)])"

declare to_string_nat.simps [simp del]

definition to_string :: "int \<Rightarrow> string" where
  "to_string i = (if i < 0 then CHR ''-'' # to_string_nat (nat (- i)) else to_string_nat (nat i))"

section \<open>Construction and cloning\<close>

text \<open>
  The private constructor (lines 42-49) initialises the base class only: every member
  of this class is default-constructed, so \<open>parameters\<close> and \<open>parameterList\<close> are empty
  vectors and the three shared pointers are null.  The parse result is assigned by
  \<open>clone\<close> right afterwards; \<open>pr\<close> stands for it until then.
\<close>

definition ClientSidePreparedStatement_private ::
  "ClientPrepareResult \<Rightarrow> int \<Rightarrow> int \<Rightarrow> int \<Rightarrow> ClientSidePreparedStatement" where
  "ClientSidePreparedStatement_private pr scrollType concurrency keys =
     \<lparr> sqlQuery = [], prepareResult = pr, parameters = [], parameterList = [],
       hasLongData = False, resultSetMetaData = None, parameterMetaData = None,
       resultSetScrollType = scrollType, resultSetConcurrency = concurrency,
       autoGeneratedKeys = keys \<rparr>"

text \<open>
  The public constructor (lines 64-80).  The two parsers of \<open>ClientPrepareResult\<close> and
  the options are parameters.  \<open>parameters.reserve(n)\<close> changes the capacity only;
  \<open>parameters.assign(n, Shared::ParameterHolder())\<close> makes the vector \<open>n\<close> null pointers.
\<close>

definition ClientSidePreparedStatement_new ::
  "bool \<Rightarrow> (string \<Rightarrow> bool \<Rightarrow> ClientPrepareResult) \<Rightarrow> (string \<Rightarrow> bool \<Rightarrow> ClientPrepareResult)
     \<Rightarrow> bool \<Rightarrow> string \<Rightarrow> int \<Rightarrow> int \<Rightarrow> int \<Rightarrow> ClientSidePreparedStatement" where
  "ClientSidePreparedStatement_new rewriteBatchedStatements rewritableParts parameterParts
       noBackslashEscapes sql scrollType concurrency keys =
     (let pr = (if rewriteBatchedStatements then rewritableParts sql noBackslashEscapes
                else parameterParts sql noBackslashEscapes)
      in \<lparr> sqlQuery = sql, prepareResult = pr,
           parameters = replicate (getParamCount pr) None, parameterList = [],
           hasLongData = False, resultSetMetaData = None, parameterMetaData = None,
           resultSetScrollType = scrollType, resultSetConcurrency = concurrency,
           autoGeneratedKeys = keys \<rparr>)"

text \<open>
  \<open>clone\<close> (lines 89-100): the private constructor, then four assignments and a
  \<open>reserve\<close>.  \<open>reserve\<close> does not change \<open>size()\<close>, so the clone's \<open>parameters\<close> stays the
  empty vector of the private constructor.
\<close>

definition clone :: "ClientSidePreparedStatement \<Rightarrow> ClientSidePreparedStatement" where
  "clone this =
     (let c = ClientSidePreparedStatement_private (prepareResult this)
                (resultSetScrollType this) (resultSetConcurrency this) (autoGeneratedKeys this)
      in c\<lparr> sqlQuery := sqlQuery this,
            prepareResult := prepareResult this,
            resultSetMetaData := resultSetMetaData this,
            parameterMetaData := parameterMetaData this \<rparr>)"

definition getParameterCount :: "ClientSidePreparedStatement \<Rightarrow> nat" where
  "getParameterCount this = getParamCount (prepareResult this)"

section \<open>The parameter store and the batch queue\<close>

text \<open>
  Every operation returns what it raised, if anything, and the object as the call leaves
  it.  A thrown exception leaves the members as they were at the \<open>throw\<close>.
\<close>

definition setParameter_message ::
  "ConnectionInfo \<Rightarrow> ClientSidePreparedStatement \<Rightarrow> int \<Rightarrow> ParameterHolder \<Rightarrow> string" where
  "setParameter_message info this parameterIndex holder =
     (let err = ''Could not set parameter at position '' @ to_string parameterIndex
                @ '' (values was '' @ toString holder @ '')'' @ [CHR 0x0A]
                @ ''Query - conn:'' @ to_string (getServerThreadId info)
                @ ''('' @ (if isMasterConnection info then ''M'' else ''S'') @ '') ''
      in if maxQuerySizeToLog info > 0
         then err @ '' - '' @ [CHR 0x22]
              @ (if int (length (sqlQuery this)) < maxQuerySizeToLog info then sqlQuery this
                 else take (nat (maxQuerySizeToLog info)) (sqlQuery this) @ ''...'')
              @ [CHR 0x22]
         else err @ '' - '' @ [CHR 0x22] @ sqlQuery this @ [CHR 0x22])"

text \<open>
  \<open>setParameter\<close> (lines 368-404).  The guard compares the index with the parse result's
  parameter count; the write \<open>parameters[parameterIndex - 1].reset(holder)\<close> indexes the
  vector, whose size the guard does not look at.
\<close>

definition setParameter ::
  "ExceptionFactory \<Rightarrow> ConnectionInfo \<Rightarrow> ClientSidePreparedStatement \<Rightarrow> int \<Rightarrow> ParameterHolder
     \<Rightarrow> error option \<times> ClientSidePreparedStatement" where
  "setParameter ef info this parameterIndex holder =
     (if parameterIndex \<ge> 1 \<and> parameterIndex < int (getParamCount (prepareResult this)) + 1
      then (let i = nat (parameterIndex - 1) in
            if i < length (parameters this)
            then (None, this\<lparr>parameters := (parameters this)[i := Some holder]\<rparr>)
            else (Some (OutOfBounds i (length (parameters this))), this))
      else (Some (SQLError (create ef (setParameter_message info this parameterIndex holder))),
            this))"

text \<open>\<open>clearParameters\<close> (lines 453-457): \<open>clear\<close>, then \<open>assign\<close> of null pointers.\<close>

definition clearParameters :: "ClientSidePreparedStatement \<Rightarrow> ClientSidePreparedStatement" where
  "clearParameters this =
     this\<lparr>parameters := replicate (getParamCount (prepareResult this)) None\<rparr>"

text \<open>
  \<open>clearBatch\<close> (lines 182-187): three statements.  \<open>parameters.clear()\<close> leaves the vector
  with size 0 (its capacity is kept, which \<open>size()\<close> and \<open>operator[]\<close> do not see).
\<close>

definition clearBatch :: "ClientSidePreparedStatement \<Rightarrow> ClientSidePreparedStatement" where
  "clearBatch this = this\<lparr>parameterList := [], hasLongData := False, parameters := []\<rparr>"

definition addBatch_message :: "ClientSidePreparedStatement \<Rightarrow> string" where
  "addBatch_message this =
     ''You need to set exactly '' @ to_string (int (getParamCount (prepareResult this)))
     @ '' parameters on the prepared statement''"

text \<open>
  The loop of \<open>addBatch\<close> (lines 165-177) from index \<open>i\<close> on: \<open>holder[i]= parameters[i]\<close>
  reads the parameter array at \<open>i\<close>, then the copy is tested for null.
\<close>

function addBatch_loop ::
  "ExceptionFactory \<Rightarrow> ClientSidePreparedStatement \<Rightarrow> nat \<Rightarrow> slot list \<Rightarrow> error + slot list" where
  "addBatch_loop ef this i holder =
     (if i < length holder
      then (if i < length (parameters this)
            then (let holder' = holder[i := parameters this ! i] in
                  if holder' ! i = None
                  then Inl (SQLError (create ef (addBatch_message this)))
                  else addBatch_loop ef this (Suc i) holder')
            else Inl (OutOfBounds i (length (parameters this))))
      else Inr holder)"
  by pat_completeness auto
termination
  by (relation "measure (\<lambda>(ef, this, i, holder). length holder - i)") auto

declare addBatch_loop.simps [simp del]

text \<open>\<open>addBatch\<close> (lines 162-179): \<open>holder\<close> starts as \<open>getParamCount()\<close> null pointers.\<close>

definition addBatch ::
  "ExceptionFactory \<Rightarrow> ClientSidePreparedStatement \<Rightarrow> error option \<times> ClientSidePreparedStatement" where
  "addBatch ef this =
     (case addBatch_loop ef this 0 (replicate (getParamCount (prepareResult this)) None) of
        Inl e \<Rightarrow> (Some e, this)
      | Inr holder \<Rightarrow> (None, this\<lparr>parameterList := parameterList this @ [holder]\<rparr>))"

section \<open>Collaborators\<close>

text \<open>
  \<open>stmt\<close> (the wrapped \<open>MariaDbStatement\<close>), \<open>protocol\<close>, \<open>Results\<close> and
  \<open>ServerSidePreparedStatement\<close> are code of other files.  Their state is a value of an
  arbitrary type \<open>'w\<close>, and each of their functions that this file calls is a field of the
  record below: it takes the state and returns the exception it threw, if any, with the
  state it left.  \<open>stmt->queryTimeout\<close> and \<open>stmt->options->continueBatchOnError\<close> are
  read, never written, by this file.

  \<open>serverPrepare\<close> is the constructor of the \<open>ServerSidePreparedStatement\<close> in
  \<open>loadParametersData\<close>, \<open>ssps_getMetaData\<close> and \<open>ssps_getParameterMetaData\<close> are its two
  getters (the first may hand back a null pointer, the second hands back the parameter
  descriptors or throws), and \<open>ssps_destroy\<close> is its destructor at the end of the \<open>try\<close> block.
\<close>

record 'w Collaborators =
  checkClose :: "'w \<Rightarrow> SQLException option"
  executeQueryPrologue :: "bool \<Rightarrow> 'w \<Rightarrow> SQLException option \<times> 'w"
  setInternalResults :: "nat \<Rightarrow> 'w \<Rightarrow> 'w"
  executeBatchClient ::
    "ClientPrepareResult \<Rightarrow> slot list list \<Rightarrow> bool \<Rightarrow> 'w \<Rightarrow> (SQLException + bool) \<times> 'w"
  stopIfInterrupted :: "'w \<Rightarrow> SQLException option"
  executeQuery :: "ClientPrepareResult \<Rightarrow> slot list \<Rightarrow> 'w \<Rightarrow> SQLException option \<times> 'w"
  commandEnd :: "'w \<Rightarrow> SQLException option \<times> 'w"
  getUpdateCounts :: "'w \<Rightarrow> int list"
  getLargeUpdateCounts :: "'w \<Rightarrow> int list"
  executeBatchEpilogue :: "'w \<Rightarrow> 'w"
  executeBatchExceptionEpilogue :: "SQLException \<Rightarrow> nat \<Rightarrow> 'w \<Rightarrow> SQLException"
  queryTimeout :: int
  continueBatchOnError :: bool
  serverPrepare :: "string \<Rightarrow> 'w \<Rightarrow> SQLException option \<times> 'w"
  ssps_getMetaData :: "'w \<Rightarrow> (SQLException + ResultSetMetaData option) \<times> 'w"
  ssps_getParameterMetaData :: "'w \<Rightarrow> (SQLException + ParameterMetaData) \<times> 'w"
  ssps_destroy :: "'w \<Rightarrow> 'w"

text \<open>
  The calls a function makes on its collaborators, in order.  \<open>ExecuteQuery it r\<close> is one
  \<open>protocol->executeQuery\<close> for the batch entry \<open>it\<close>, with what it threw.  \<open>LockAcquire\<close> and
  \<open>LockRelease\<close> are the construction and the destruction of the guard on
  \<open>*protocol->getLock()\<close>.
\<close>

datatype event =
    CheckClose
  | LockAcquire
  | LockRelease
  | ExecuteQueryPrologue bool
  | SetInternalResults nat
  | ExecuteBatchClient
  | StopIfInterrupted
  | ExecuteQuery "slot list" "SQLException option"
  | CommandEnd
  | ExecuteBatchEpilogue
  | ExecuteBatchExceptionEpilogue nat
  | ServerPrepare

fun isTransportCall :: "event \<Rightarrow> bool" where
  "isTransportCall ExecuteBatchClient = True"
| "isTransportCall StopIfInterrupted = True"
| "isTransportCall (ExecuteQuery it r) = True"
| "isTransportCall _ = False"

fun dispatched :: "event list \<Rightarrow> slot list list" where
  "dispatched [] = []"
| "dispatched (ExecuteQuery it r # evs) = it # dispatched evs"
| "dispatched (_ # evs) = dispatched evs"

fun completed :: "event list \<Rightarrow> slot list list" where
  "completed [] = []"
| "completed (ExecuteQuery it None # evs) = it # completed evs"
| "completed (_ # evs) = completed evs"

section \<open>Batch execution\<close>

text \<open>
  The two loops of \<open>executeInternalBatch\<close> (lines 287-325).  Each takes the entries still
  to send and the local variable \<open>exception\<close>, and returns \<open>Inl e\<close> when \<open>e\<close> left the loop
  as a thrown exception, \<open>Inr exception\<close> when the loop ran to its end.  The first loop
  (\<open>stmt->queryTimeout > 0\<close>) calls \<open>protocol->stopIfInterrupted()\<close> outside the \<open>try\<close>
  block; the second has no such call.
\<close>

fun batchLoopTimeout ::
  "'w Collaborators \<Rightarrow> ClientPrepareResult \<Rightarrow> slot list list \<Rightarrow> SQLException \<Rightarrow> 'w
     \<Rightarrow> (SQLException + SQLException) \<times> 'w \<times> event list" where
  "batchLoopTimeout T pr [] exception w = (Inr exception, w, [])"
| "batchLoopTimeout T pr (it # rest) exception w =
     (case stopIfInterrupted T w of
        Some e \<Rightarrow> (Inl e, w, [StopIfInterrupted])
      | None \<Rightarrow>
          (case executeQuery T pr it w of
             (None, w') \<Rightarrow>
               (case batchLoopTimeout T pr rest exception w' of
                  (r, w'', evs) \<Rightarrow> (r, w'', StopIfInterrupted # ExecuteQuery it None # evs))
           | (Some e, w') \<Rightarrow>
               if continueBatchOnError T
               then (case batchLoopTimeout T pr rest e w' of
                       (r, w'', evs) \<Rightarrow> (r, w'', StopIfInterrupted # ExecuteQuery it (Some e) # evs))
               else (Inl e, w', [StopIfInterrupted, ExecuteQuery it (Some e)])))"

fun batchLoop ::
  "'w Collaborators \<Rightarrow> ClientPrepareResult \<Rightarrow> slot list list \<Rightarrow> SQLException \<Rightarrow> 'w
     \<Rightarrow> (SQLException + SQLException) \<times> 'w \<times> event list" where
  "batchLoop T pr [] exception w = (Inr exception, w, [])"
| "batchLoop T pr (it # rest) exception w =
     (case executeQuery T pr it w of
        (None, w') \<Rightarrow>
          (case batchLoop T pr rest exception w' of
             (r, w'', evs) \<Rightarrow> (r, w'', ExecuteQuery it None # evs))
      | (Some e, w') \<Rightarrow>
          if continueBatchOnError T
          then (case batchLoop T pr rest e w' of
                  (r, w'', evs) \<Rightarrow> (r, w'', ExecuteQuery it (Some e) # evs))
          else (Inl e, w', [ExecuteQuery it (Some e)]))"

text \<open>
  \<open>*exception.getMessage() != '\0'\<close> (line 328): the first character of the message is
  not the terminator.
\<close>

definition hasMessage :: "SQLException \<Rightarrow> bool" where
  "hasMessage e = (case getMessage e of [] \<Rightarrow> False | c # cs \<Rightarrow> c \<noteq> CHR 0x00)"

text \<open>\<open>SQLException exception("")\<close> (line 285).\<close>

definition emptyException :: SQLException where
  "emptyException = \<lparr> getMessage = [], getSQLState = [], getErrorCode = 0 \<rparr>"

text \<open>
  The sequential part of \<open>executeInternalBatch\<close> (lines 284-330): the choice of the loop,
  then the test of \<open>exception\<close>.
\<close>

definition executeSequential ::
  "'w Collaborators \<Rightarrow> ClientPrepareResult \<Rightarrow> slot list list \<Rightarrow> 'w
     \<Rightarrow> SQLException option \<times> 'w \<times> event list" where
  "executeSequential T pr entries w =
     (case (if queryTimeout T > 0 then batchLoopTimeout T pr entries emptyException w
            else batchLoop T pr entries emptyException w) of
        (Inl e, w', evs) \<Rightarrow> (Some e, w', evs)
      | (Inr exception, w', evs) \<Rightarrow>
          if hasMessage exception then (Some exception, w', evs) else (None, w', evs))"

text \<open>\<open>executeInternalBatch\<close> (lines 261-331).\<close>

definition executeInternalBatch ::
  "'w Collaborators \<Rightarrow> ClientSidePreparedStatement \<Rightarrow> nat \<Rightarrow> 'w
     \<Rightarrow> SQLException option \<times> 'w \<times> event list" where
  "executeInternalBatch T this size' w =
     (case executeQueryPrologue T True w of
        (Some e, w1) \<Rightarrow> (Some e, w1, [ExecuteQueryPrologue True])
      | (None, w1) \<Rightarrow>
          (case executeBatchClient T (prepareResult this) (parameterList this) (hasLongData this)
                  (setInternalResults T size' w1) of
             (Inl e, w2) \<Rightarrow>
               (Some e, w2, [ExecuteQueryPrologue True, SetInternalResults size', ExecuteBatchClient])
           | (Inr True, w2) \<Rightarrow>
               (None, w2, [ExecuteQueryPrologue True, SetInternalResults size', ExecuteBatchClient])
           | (Inr False, w2) \<Rightarrow>
               (case executeSequential T (prepareResult this) (parameterList this) w2 of
                  (r, w3, evs) \<Rightarrow>
                    (r, w3, [ExecuteQueryPrologue True, SetInternalResults size', ExecuteBatchClient]
                            @ evs))))"

text \<open>
  The \<open>catch\<close> block of \<open>executeBatch\<close> and \<open>executeLargeBatch\<close> (lines 205-208, 248-251):
  the epilogue, then the \<open>throw\<close> of the transformed exception, which destroys the guard.
\<close>

definition batchCatch ::
  "'w Collaborators \<Rightarrow> SQLException \<Rightarrow> nat \<Rightarrow> 'w \<Rightarrow> event list
     \<Rightarrow> (SQLException + int list) \<times> 'w \<times> event list" where
  "batchCatch T sqle size' w evs =
     (let w' = executeBatchEpilogue T w
      in (Inl (executeBatchExceptionEpilogue T sqle size' w'), w',
          evs @ [ExecuteBatchEpilogue, ExecuteBatchExceptionEpilogue size', LockRelease]))"

text \<open>
  The common body of \<open>executeBatch\<close> (lines 190-210) and \<open>executeLargeBatch\<close> (lines
  234-253), which differ in the getter of the update counts.  \<open>batchRes.wrap(nullptr, 0)\<close>
  is the empty sequence.  In the \<open>try\<close> block the last statement is a \<open>return\<close> and the
  \<open>catch\<close> block ends with a \<open>throw\<close>, so control never reaches the statement after them
  (\<open>stmt->executeBatchEpilogue()\<close>, lines 209 and 252): no path below contains it.
\<close>

definition executeBatchBody ::
  "('w \<Rightarrow> int list) \<Rightarrow> 'w Collaborators \<Rightarrow> ClientSidePreparedStatement \<Rightarrow> 'w
     \<Rightarrow> (SQLException + int list) \<times> 'w \<times> event list" where
  "executeBatchBody counts T this w =
     (case checkClose T w of
        Some e \<Rightarrow> (Inl e, w, [CheckClose])
      | None \<Rightarrow>
          (let size' = length (parameterList this) in
           if size' = 0 then (Inr [], w, [CheckClose])
           else
             (case executeInternalBatch T this size' w of
                (Some sqle, w1, evs) \<Rightarrow> batchCatch T sqle size' w1 ([CheckClose, LockAcquire] @ evs)
              | (None, w1, evs) \<Rightarrow>
                  (case commandEnd T w1 of
                     (Some sqle, w2) \<Rightarrow>
                       batchCatch T sqle size' w2 ([CheckClose, LockAcquire] @ evs @ [CommandEnd])
                   | (None, w2) \<Rightarrow>
                       (Inr (counts w2), w2,
                        [CheckClose, LockAcquire] @ evs @ [CommandEnd, LockRelease])))))"

definition executeBatch ::
  "'w Collaborators \<Rightarrow> ClientSidePreparedStatement \<Rightarrow> 'w
     \<Rightarrow> (SQLException + int list) \<times> 'w \<times> event list" where
  "executeBatch T this w = executeBatchBody (getUpdateCounts T) T this w"

definition executeLargeBatch ::
  "'w Collaborators \<Rightarrow> ClientSidePreparedStatement \<Rightarrow> 'w
     \<Rightarrow> (SQLException + int list) \<times> 'w \<times> event list" where
  "executeLargeBatch T this w = executeBatchBody (getLargeUpdateCounts T) T this w"

section \<open>Metadata\<close>

text \<open>
  The \<open>try\<close> block of \<open>loadParametersData\<close> (lines 429-439): what it threw, the object and
  the collaborators as it leaves them.  The destructor of \<open>ssps\<close> runs when its constructor
  has returned.
\<close>

definition loadParametersData_try ::
  "'w Collaborators \<Rightarrow> ClientSidePreparedStatement \<Rightarrow> 'w
     \<Rightarrow> SQLException option \<times> ClientSidePreparedStatement \<times> 'w \<times> event list" where
  "loadParametersData_try T this w =
     (case serverPrepare T (sqlQuery this) w of
        (Some e, w1) \<Rightarrow> (Some e, this, w1, [ServerPrepare])
      | (None, w1) \<Rightarrow>
          (case ssps_getMetaData T w1 of
             (Inl e, w2) \<Rightarrow> (Some e, this, ssps_destroy T w2, [ServerPrepare])
           | (Inr rsmd, w2) \<Rightarrow>
               (case ssps_getParameterMetaData T w2 of
                  (Inl e, w3) \<Rightarrow>
                    (Some e, this\<lparr>resultSetMetaData := rsmd\<rparr>, ssps_destroy T w3, [ServerPrepare])
                | (Inr pmd, w3) \<Rightarrow>
                    (None, this\<lparr>resultSetMetaData := rsmd, parameterMetaData := Some pmd\<rparr>,
                     ssps_destroy T w3, [ServerPrepare]))))"

text \<open>\<open>loadParametersData\<close> (lines 427-443): the \<open>try\<close> block and its \<open>catch (SQLException&)\<close>.\<close>

definition loadParametersData ::
  "'w Collaborators \<Rightarrow> ClientSidePreparedStatement \<Rightarrow> 'w
     \<Rightarrow> SQLException option \<times> ClientSidePreparedStatement \<times> 'w \<times> event list" where
  "loadParametersData T this w =
     (case loadParametersData_try T this w of
        (Some e, this', w', evs) \<Rightarrow>
          (None,
           this'\<lparr>parameterMetaData :=
                   Some (SimpleParameterMetaData (getParamCount (prepareResult this')))\<rparr>,
           w', evs)
      | (None, this', w', evs) \<Rightarrow> (None, this', w', evs))"

text \<open>\<open>getParameterMetaData\<close> (lines 418-425); the result is the pointer it returns.\<close>

definition getParameterMetaData ::
  "'w Collaborators \<Rightarrow> ClientSidePreparedStatement \<Rightarrow> 'w
     \<Rightarrow> (SQLException + ParameterMetaData option) \<times> ClientSidePreparedStatement \<times> 'w \<times> event list"
  where
  "getParameterMetaData T this w =
     (case checkClose T w of
        Some e \<Rightarrow> (Inl e, this, w, [CheckClose])
      | None \<Rightarrow>
          (case (if parameterMetaData this = None then loadParametersData T this w
                 else (None, this, w, [])) of
             (Some e, this', w', evs) \<Rightarrow> (Inl e, this', w', CheckClose # evs)
           | (None, this', w', evs) \<Rightarrow> (Inr (parameterMetaData this'), this', w', CheckClose # evs)))"

section \<open>Notions the properties are stated with\<close>

text \<open>
  The collaborators as they are once the entries \<open>es\<close> have been sent one by one, in
  order, from \<open>w\<close> on.
\<close>

definition worldAfter ::
  "'w Collaborators \<Rightarrow> ClientPrepareResult \<Rightarrow> slot list list \<Rightarrow> 'w \<Rightarrow> 'w" where
  "worldAfter T pr es w = foldl (\<lambda>w' it. snd (executeQuery T pr it w')) w es"

text \<open>
  Positions in a batch count from 1.  \<open>outcomeAt T pr es w p\<close> is what sending the entry
  at position \<open>p\<close> throws once the entries before it have been sent; \<open>interruptAt T pr es
  w p\<close> is what the cancellation check throws at that moment.
\<close>

definition outcomeAt ::
  "'w Collaborators \<Rightarrow> ClientPrepareResult \<Rightarrow> slot list list \<Rightarrow> 'w \<Rightarrow> nat \<Rightarrow> SQLException option"
  where
  "outcomeAt T pr es w p =
     fst (executeQuery T pr (es ! (p - 1)) (worldAfter T pr (take (p - 1) es) w))"

definition interruptAt ::
  "'w Collaborators \<Rightarrow> ClientPrepareResult \<Rightarrow> slot list list \<Rightarrow> 'w \<Rightarrow> nat \<Rightarrow> SQLException option"
  where
  "interruptAt T pr es w p = stopIfInterrupted T (worldAfter T pr (take (p - 1) es) w)"

text \<open>
  \<open>fallbackWorld T this w\<close> is \<open>Some w2\<close> when \<open>executeBatch\<close>, called with the collaborators
  in \<open>w\<close>, reaches the sequential loops with the collaborators in \<open>w2\<close>: the statement
  is open, the queue is not empty, the prologue returns and \<open>executeBatchClient\<close> returns
  \<open>false\<close>.
\<close>

definition fallbackWorld ::
  "'w Collaborators \<Rightarrow> ClientSidePreparedStatement \<Rightarrow> 'w \<Rightarrow> 'w option" where
  "fallbackWorld T this w =
     (if checkClose T w = None \<and> parameterList this \<noteq> []
      then (case executeQueryPrologue T True w of
              (Some e, w1) \<Rightarrow> None
            | (None, w1) \<Rightarrow>
                (case executeBatchClient T (prepareResult this) (parameterList this)
                        (hasLongData this)
                        (setInternalResults T (length (parameterList this)) w1) of
                   (Inr False, w2) \<Rightarrow> Some w2
                 | _ \<Rightarrow> None))
      else None)"

text \<open>
  Every \<open>ExecuteQuery\<close> in a sequence of calls comes right after a \<open>StopIfInterrupted\<close>.
  The flag of \<open>checkedFrom\<close> says whether the call before the sequence was one.
\<close>

fun isDispatch :: "event \<Rightarrow> bool" where
  "isDispatch (ExecuteQuery it r) = True"
| "isDispatch _ = False"

fun checkedFrom :: "bool \<Rightarrow> event list \<Rightarrow> bool" where
  "checkedFrom prev [] = True"
| "checkedFrom prev (ev # evs) =
     ((if isDispatch ev then prev else True) \<and> checkedFrom (ev = StopIfInterrupted) evs)"

definition checkedBeforeDispatch :: "event list \<Rightarrow> bool" where
  "checkedBeforeDispatch evs = checkedFrom False evs"

section \<open>Concrete collaborators and statements\<close>

text \<open>
  A factory, a server and statements to run the definitions on.  The server rejects the
  entries \<open>dup\<close> and \<open>null\<close>, each with an error of its own, counts one updated row for any other
  entry, and raises its interrupt flag while it executes the entry \<open>slow\<close>.
\<close>

definition testFactory :: ExceptionFactory where
  "testFactory =
     \<lparr> create = (\<lambda>m. \<lparr> getMessage = m, getSQLState = ''42000'', getErrorCode = - 1 \<rparr>),
       createWithState = (\<lambda>m st. \<lparr> getMessage = m, getSQLState = st, getErrorCode = - 1 \<rparr>) \<rparr>"

definition testInfo :: ConnectionInfo where
  "testInfo = \<lparr> getServerThreadId = 7, isMasterConnection = True, maxQuerySizeToLog = 1024 \<rparr>"

definition testStatement :: "nat \<Rightarrow> slot list \<Rightarrow> slot list list \<Rightarrow> ClientSidePreparedStatement" where
  "testStatement n ps queue =
     (ClientSidePreparedStatement_new False (\<lambda>sql nb. \<lparr>getParamCount = n\<rparr>)
        (\<lambda>sql nb. \<lparr>getParamCount = n\<rparr>) False ''INSERT INTO t VALUES (?)'' 1003 1007 2)
       \<lparr> parameters := ps, parameterList := queue \<rparr>"

record TestWorld =
  statementClosed :: bool
  interruptFlag :: bool
  recordedCounts :: "int list"
  prepareFails :: bool

definition closedError :: SQLException where
  "closedError = \<lparr> getMessage = ''Cannot do an operation on a closed statement'',
                   getSQLState = ''HY000'', getErrorCode = - 1 \<rparr>"

definition timeoutError :: SQLException where
  "timeoutError = \<lparr> getMessage = ''Timeout during batch execution'',
                    getSQLState = ''70100'', getErrorCode = 1317 \<rparr>"

definition dupError :: SQLException where
  "dupError = \<lparr> getMessage = ''Duplicate entry'', getSQLState = ''23000'', getErrorCode = 1062 \<rparr>"

definition nullError :: SQLException where
  "nullError = \<lparr> getMessage = ''Column cannot be null'', getSQLState = ''23000'',
                 getErrorCode = 1048 \<rparr>"

definition unsupportedError :: SQLException where
  "unsupportedError =
     \<lparr> getMessage = ''This command is not supported in the prepared statement protocol yet'',
       getSQLState = ''HY000'', getErrorCode = 1295 \<rparr>"

definition entry :: "string \<Rightarrow> slot list" where
  "entry v = [Some (ParameterHolder v)]"

definition testCollaborators :: "bool \<Rightarrow> int \<Rightarrow> TestWorld Collaborators" where
  "testCollaborators cont timeout =
     \<lparr> checkClose = (\<lambda>w. if statementClosed w then Some closedError else None),
       executeQueryPrologue = (\<lambda>b w. (None, w)),
       setInternalResults = (\<lambda>n w. w\<lparr>recordedCounts := []\<rparr>),
       executeBatchClient = (\<lambda>pr es l w. (Inr False, w)),
       stopIfInterrupted = (\<lambda>w. if interruptFlag w then Some timeoutError else None),
       executeQuery = (\<lambda>pr it w.
          if it = entry ''dup'' then (Some dupError, w)
          else if it = entry ''null'' then (Some nullError, w)
          else if it = entry ''slow''
          then (None, w\<lparr>interruptFlag := True, recordedCounts := recordedCounts w @ [1]\<rparr>)
          else (None, w\<lparr>recordedCounts := recordedCounts w @ [1]\<rparr>)),
       commandEnd = (\<lambda>w. (None, w)),
       getUpdateCounts = recordedCounts,
       getLargeUpdateCounts = recordedCounts,
       executeBatchEpilogue = (\<lambda>w. w),
       executeBatchExceptionEpilogue = (\<lambda>e n w. e),
       queryTimeout = timeout,
       continueBatchOnError = cont,
       serverPrepare = (\<lambda>sql w. if prepareFails w then (Some unsupportedError, w) else (None, w)),
       ssps_getMetaData = (\<lambda>w. (Inr None, w)),
       ssps_getParameterMetaData = (\<lambda>w. (Inr (MariaDbParameterMetaData [''INT'']), w)),
       ssps_destroy = (\<lambda>w. w) \<rparr>"

definition testWorld :: TestWorld where
  "testWorld =
     \<lparr> statementClosed = False, interruptFlag = False, recordedCounts = [],
       prepareFails = False \<rparr>"

section \<open>The concrete collaborators, field by field\<close>

lemma testStatement_sel:
  "parameterList (testStatement n ps queue) = queue"
  "prepareResult (testStatement n ps queue) = \<lparr>getParamCount = n\<rparr>"
  "parameters (testStatement n ps queue) = ps"
  "hasLongData (testStatement n ps queue) = False"
  "parameterMetaData (testStatement n ps queue) = None"
  by (simp_all add: testStatement_def ClientSidePreparedStatement_new_def)

lemma testCollaborators_sel:
  "checkClose (testCollaborators c t) w = (if statementClosed w then Some closedError else None)"
  "executeQueryPrologue (testCollaborators c t) b w = (None, w)"
  "setInternalResults (testCollaborators c t) n w = w\<lparr>recordedCounts := []\<rparr>"
  "executeBatchClient (testCollaborators c t) pr es l w = (Inr False, w)"
  "stopIfInterrupted (testCollaborators c t) w = (if interruptFlag w then Some timeoutError else None)"
  "commandEnd (testCollaborators c t) w = (None, w)"
  "getUpdateCounts (testCollaborators c t) w = recordedCounts w"
  "getLargeUpdateCounts (testCollaborators c t) w = recordedCounts w"
  "executeBatchEpilogue (testCollaborators c t) w = w"
  "executeBatchExceptionEpilogue (testCollaborators c t) e n w = e"
  "queryTimeout (testCollaborators c t) = t"
  "continueBatchOnError (testCollaborators c t) = c"
  "serverPrepare (testCollaborators c t) sql w
     = (if prepareFails w then (Some unsupportedError, w) else (None, w))"
  "ssps_getMetaData (testCollaborators c t) w = (Inr None, w)"
  "ssps_getParameterMetaData (testCollaborators c t) w = (Inr (MariaDbParameterMetaData [''INT'']), w)"
  "ssps_destroy (testCollaborators c t) w = w"
  by (simp_all add: testCollaborators_def)

lemma testCollaborators_executeQuery:
  "executeQuery (testCollaborators c t) pr it w =
     (if it = entry ''dup'' then (Some dupError, w)
      else if it = entry ''null'' then (Some nullError, w)
      else if it = entry ''slow''
      then (None, w\<lparr>interruptFlag := True, recordedCounts := recordedCounts w @ [1]\<rparr>)
      else (None, w\<lparr>recordedCounts := recordedCounts w @ [1]\<rparr>))"
  by (simp add: testCollaborators_def)

lemma entry_eq [simp]: "(entry a = entry b) = (a = b)"
  by (simp add: entry_def)

lemmas test_defs =
  testStatement_sel testCollaborators_sel testCollaborators_executeQuery testWorld_def

section \<open>The parameter store and the batch queue: properties\<close>

text \<open>
  When the parameter array has the length of the parameter count, the loop of \<open>addBatch\<close>
  either meets a null pointer or copies the whole array.
\<close>

lemma addBatch_loop_copy:
  "length holder = length (parameters this) \<Longrightarrow> i \<le> length holder \<Longrightarrow> take i holder = take i (parameters this) \<Longrightarrow>
   addBatch_loop ef this i holder =
     (if None \<in> set (drop i (parameters this))
      then Inl (SQLError (create ef (addBatch_message this)))
      else Inr (parameters this))"
proof (induction ef this i holder rule: addBatch_loop.induct)
  case (1 ef this i holder)
  show ?case
  proof (cases "i < length holder")
    case False
    with 1(2,3,4) have "i = length holder" "holder = parameters this" by auto
    then show ?thesis using 1(2) by (simp add: addBatch_loop.simps)
  next
    case True
    let ?h = "holder[i := parameters this ! i]"
    have dr: "drop i (parameters this) = parameters this ! i # drop (Suc i) (parameters this)"
      using True 1(2) by (simp add: Cons_nth_drop_Suc)
    show ?thesis
    proof (cases "parameters this ! i = None")
      case True
      then show ?thesis using \<open>i < length holder\<close> 1(2) dr
        by (simp add: addBatch_loop.simps)
    next
      case False
      have tk: "take (Suc i) ?h = take (Suc i) (parameters this)"
        using True 1(2,4) by (simp add: take_Suc_conv_app_nth)
      have "addBatch_loop ef this (Suc i) ?h =
              (if None \<in> set (drop (Suc i) (parameters this))
               then Inl (SQLError (create ef (addBatch_message this)))
               else Inr (parameters this))"
        using 1(1)[of ?h] True 1(2) False tk by simp
      then show ?thesis using True 1(2) False dr
        by (subst addBatch_loop.simps) auto
    qed
  qed
qed

lemma addBatch_result:
  assumes "length (parameters this) = getParamCount (prepareResult this)"
  shows "addBatch ef this =
     (if None \<in> set (parameters this)
      then (Some (SQLError (create ef (addBatch_message this))), this)
      else (None, this\<lparr>parameterList := parameterList this @ [parameters this]\<rparr>))"
  using addBatch_loop_copy[of "replicate (getParamCount (prepareResult this)) None" this 0 ef] assms
  by (simp add: addBatch_def)


lemma setParameter_parameterList:
  "parameterList (snd (setParameter ef info this idx h)) = parameterList this"
  by (simp add: setParameter_def Let_def)

lemma setParameter_length:
  "length (parameters (snd (setParameter ef info this idx h))) = length (parameters this)"
  by (simp add: setParameter_def Let_def)

lemma addBatch_parameters: "parameters (snd (addBatch ef this)) = parameters this"
  by (simp add: addBatch_def split: sum.splits)

text \<open>
  On a statement whose parameter array has the length of the parameter count, \<open>addBatch\<close>
  is atomic: if some slot is unbound, it raises the statement error "You need to set
  exactly N parameters on the prepared statement" and leaves the object, so the size of
  the queue, as it was; if every slot is bound, it raises nothing, the queue grows by
  exactly one entry, that entry is the parameter array as it is at the call, and a later
  \<open>setParameter\<close> or \<open>clearParameters\<close> does not change the queue.
\<close>

lemma addBatch_wellformed:
  assumes "length (parameters this) = getParamCount (prepareResult this)"
  shows "(None \<in> set (parameters this) \<longrightarrow>
            fst (addBatch ef this) = Some (SQLError (create ef (addBatch_message this))) \<and>
            snd (addBatch ef this) = this \<and>
            length (parameterList (snd (addBatch ef this))) = length (parameterList this))
       \<and> (None \<notin> set (parameters this) \<longrightarrow>
            fst (addBatch ef this) = None \<and>
            length (parameterList (snd (addBatch ef this))) = Suc (length (parameterList this)) \<and>
            parameterList (snd (addBatch ef this)) = parameterList this @ [parameters this] \<and>
            parameterList (snd (setParameter ef info (snd (addBatch ef this)) idx h))
              = parameterList this @ [parameters this] \<and>
            parameterList (clearParameters (snd (addBatch ef this)))
              = parameterList this @ [parameters this])"
  using addBatch_result[OF assms, of ef]
  by (simp add: setParameter_parameterList clearParameters_def)

lemma addBatch_wellformed_example:
  "fst (addBatch testFactory (testStatement 2 [Some (ParameterHolder ''10''), None] []))
     = Some (SQLError \<lparr> getMessage = ''You need to set exactly 2 parameters on the prepared statement'',
                        getSQLState = ''42000'', getErrorCode = - 1 \<rparr>)
   \<and> parameterList (snd (addBatch testFactory (testStatement 2 [Some (ParameterHolder ''10''), None] []))) = []
   \<and> fst (addBatch testFactory (testStatement 2 [Some (ParameterHolder ''10''), Some (ParameterHolder ''a'')] [])) = None
   \<and> parameterList (snd (setParameter testFactory testInfo
        (snd (addBatch testFactory (testStatement 2 [Some (ParameterHolder ''10''), Some (ParameterHolder ''a'')] [])))
        1 (ParameterHolder ''20'')))
     = [[Some (ParameterHolder ''10''), Some (ParameterHolder ''a'')]]"
proof -
  have l1: "length (parameters (testStatement 2 [Some (ParameterHolder ''10''), None] []))
              = getParamCount (prepareResult (testStatement 2 [Some (ParameterHolder ''10''), None] []))"
    by (simp add: testStatement_def ClientSidePreparedStatement_new_def)
  have l2: "length (parameters (testStatement 2 [Some (ParameterHolder ''10''), Some (ParameterHolder ''a'')] []))
              = getParamCount (prepareResult (testStatement 2 [Some (ParameterHolder ''10''), Some (ParameterHolder ''a'')] []))"
    by (simp add: testStatement_def ClientSidePreparedStatement_new_def)
  have m: "addBatch_message (testStatement 2 [Some (ParameterHolder ''10''), None] [])
             = ''You need to set exactly 2 parameters on the prepared statement''"
    by (simp add: addBatch_message_def testStatement_def ClientSidePreparedStatement_new_def
          to_string_def to_string_nat.simps digit_char_def)
  show ?thesis
    using addBatch_wellformed[OF l1, of testFactory testInfo 1 "ParameterHolder ''20''"]
          addBatch_wellformed[OF l2, of testFactory testInfo 1 "ParameterHolder ''20''"] m
    by (simp add: testStatement_def ClientSidePreparedStatement_new_def testFactory_def)
qed

text \<open>
  With an empty parameter array and at least one parameter, the first step of the loop of
  \<open>addBatch\<close> reads \<open>parameters[0]\<close> outside the array.
\<close>

lemma addBatch_empty_parameters:
  assumes "parameters this = []" and "1 \<le> getParamCount (prepareResult this)"
  shows "addBatch ef this = (Some (OutOfBounds 0 0), this)"
proof -
  have "addBatch_loop ef this 0 (replicate (getParamCount (prepareResult this)) None)
          = Inl (OutOfBounds 0 0)"
    using assms by (subst addBatch_loop.simps) simp
  then show ?thesis by (simp add: addBatch_def)
qed

text \<open>
  C5.  For a statement with at least one parameter, \<open>addBatch\<close> right after \<open>clearBatch\<close>,
  or on a fresh clone, is not atomic in the sense of the claim: the parameter array is
  empty there, the first step of the loop reads \<open>parameters[0]\<close> outside it, and the call
  neither raises the statement error for an unbound parameter nor appends an entry to the
  queue.  (On the statement itself, whose array has the length of the parameter count,
  the entry is appended.)
\<close>

theorem addBatch_reads_out_of_bounds:
  assumes "1 \<le> getParamCount (prepareResult this)"
  shows "addBatch ef (clearBatch this) = (Some (OutOfBounds 0 0), clearBatch this)
       \<and> addBatch ef (clone this) = (Some (OutOfBounds 0 0), clone this)
       \<and> fst (addBatch ef (clearBatch this))
           \<noteq> Some (SQLError (create ef (addBatch_message (clearBatch this))))
       \<and> parameterList (snd (addBatch ef (clearBatch this))) = []
       \<and> parameterList (snd (addBatch ef (clone this))) = []"
proof -
  have a: "addBatch ef (clearBatch this) = (Some (OutOfBounds 0 0), clearBatch this)"
    using assms by (intro addBatch_empty_parameters) (simp_all add: clearBatch_def)
  have b: "addBatch ef (clone this) = (Some (OutOfBounds 0 0), clone this)"
    using assms
    by (intro addBatch_empty_parameters)
       (simp_all add: clone_def ClientSidePreparedStatement_private_def)
  show ?thesis
    using a b by (simp add: clearBatch_def clone_def ClientSidePreparedStatement_private_def)
qed

theorem addBatch_reads_out_of_bounds_witness:
  "addBatch testFactory (clearBatch (testStatement 1 [Some (ParameterHolder ''10'')] []))
     = (Some (OutOfBounds 0 0), clearBatch (testStatement 1 [Some (ParameterHolder ''10'')] []))
   \<and> addBatch testFactory (clone (testStatement 1 [Some (ParameterHolder ''10'')] []))
     = (Some (OutOfBounds 0 0), clone (testStatement 1 [Some (ParameterHolder ''10'')] []))
   \<and> addBatch testFactory (testStatement 1 [Some (ParameterHolder ''10'')] [])
     = (None, testStatement 1 [Some (ParameterHolder ''10'')] [[Some (ParameterHolder ''10'')]])"
proof -
  have h: "1 \<le> getParamCount (prepareResult (testStatement 1 [Some (ParameterHolder ''10'')] []))"
    by (simp add: test_defs)
  have l: "length (parameters (testStatement 1 [Some (ParameterHolder ''10'')] []))
             = getParamCount (prepareResult (testStatement 1 [Some (ParameterHolder ''10'')] []))"
    by (simp add: test_defs)
  have ok: "addBatch testFactory (testStatement 1 [Some (ParameterHolder ''10'')] [])
     = (None, testStatement 1 [Some (ParameterHolder ''10'')] [[Some (ParameterHolder ''10'')]])"
    using addBatch_result[OF l, of testFactory]
    by (simp add: testStatement_def ClientSidePreparedStatement_new_def)
  show ?thesis
    using addBatch_reads_out_of_bounds[OF h, of testFactory] ok by simp
qed

text \<open>
  C10.  For a parameter count \<open>N \<ge> 1\<close> and an index in \<open>[1, N]\<close>: \<open>clearBatch\<close> keeps the
  parameter count, so the index still passes the guard of \<open>setParameter\<close>, but the array
  it leaves does not have length \<open>N\<close>, and the write \<open>parameters[index - 1]\<close> is outside
  it.  In general the write of an index that passes the guard is inside the array exactly
  when the array is longer than \<open>index - 1\<close>, which the length \<open>N\<close> guarantees and the
  guard alone does not.
\<close>

theorem setParameter_after_clearBatch:
  assumes "1 \<le> idx" and "idx \<le> int (getParamCount (prepareResult this))"
  shows "getParamCount (prepareResult (clearBatch this)) = getParamCount (prepareResult this)
       \<and> length (parameters (clearBatch this)) \<noteq> getParamCount (prepareResult this)
       \<and> setParameter ef info (clearBatch this) idx h
           = (Some (OutOfBounds (nat (idx - 1)) 0), clearBatch this)
       \<and> (fst (setParameter ef info this idx h) = None
            \<longleftrightarrow> nat (idx - 1) < length (parameters this))
       \<and> (length (parameters this) = getParamCount (prepareResult this)
            \<longrightarrow> fst (setParameter ef info this idx h) = None)"
  using assms by (auto simp: setParameter_def clearBatch_def Let_def)

theorem setParameter_after_clearBatch_witness:
  "setParameter testFactory testInfo
      (clearBatch (testStatement 2 [Some (ParameterHolder ''10''), Some (ParameterHolder ''a'')] [])) 2
      (ParameterHolder ''b'')
    = (Some (OutOfBounds 1 0),
       clearBatch (testStatement 2 [Some (ParameterHolder ''10''), Some (ParameterHolder ''a'')] []))
   \<and> fst (setParameter testFactory testInfo
        (testStatement 2 [Some (ParameterHolder ''10''), Some (ParameterHolder ''a'')] []) 2
        (ParameterHolder ''b'')) = None"
proof -
  have r: "(1::int) \<le> 2"
     "(2::int) \<le> int (getParamCount (prepareResult (testStatement 2 [Some (ParameterHolder ''10''), Some (ParameterHolder ''a'')] [])))"
    by (simp_all add: testStatement_def ClientSidePreparedStatement_new_def)
  show ?thesis
    using setParameter_after_clearBatch[OF r, of testFactory testInfo "ParameterHolder ''b''"]
    by (simp add: testStatement_def ClientSidePreparedStatement_new_def)
qed

text \<open>
  C2, as stated, fails: on a statement with two bound parameters, \<open>clearBatch\<close> does not
  leave the parameter array as it was, and the array's length is not the parameter count
  afterwards.
\<close>

theorem clearBatch_untouched_counterexample:
  "\<not> (parameters (clearBatch (testStatement 2 [Some (ParameterHolder ''10''), Some (ParameterHolder ''a'')] []))
         = parameters (testStatement 2 [Some (ParameterHolder ''10''), Some (ParameterHolder ''a'')] [])
       \<and> length (parameters (clearBatch (testStatement 2 [Some (ParameterHolder ''10''), Some (ParameterHolder ''a'')] [])))
         = getParamCount (prepareResult
             (clearBatch (testStatement 2 [Some (ParameterHolder ''10''), Some (ParameterHolder ''a'')] []))))"
  by (simp add: clearBatch_def testStatement_def ClientSidePreparedStatement_new_def)

text \<open>
  C2, amended.  \<open>clearBatch\<close> empties the batch list, resets the long-data flag and also
  unbinds the parameter store: no holder is bound in any slot afterwards, and the parse
  result is kept.  The parameter array has the length of the parameter count after
  construction and after \<open>clearParameters\<close>; \<open>setParameter\<close> and \<open>addBatch\<close> change neither
  its length nor the parse result.
\<close>

theorem clearBatch_resets:
  "parameterList (clearBatch this) = []
   \<and> hasLongData (clearBatch this) = False
   \<and> Some h \<notin> set (parameters (clearBatch this))
   \<and> prepareResult (clearBatch this) = prepareResult this
   \<and> length (parameters (ClientSidePreparedStatement_new rw rp pp nb sql st co ke))
       = getParamCount (prepareResult (ClientSidePreparedStatement_new rw rp pp nb sql st co ke))
   \<and> length (parameters (clearParameters this)) = getParamCount (prepareResult (clearParameters this))
   \<and> length (parameters (snd (setParameter ef info this idx h))) = length (parameters this)
   \<and> prepareResult (snd (setParameter ef info this idx h)) = prepareResult this
   \<and> parameters (snd (addBatch ef this)) = parameters this
   \<and> prepareResult (snd (addBatch ef this)) = prepareResult this"
  by (simp add: clearBatch_def ClientSidePreparedStatement_new_def clearParameters_def
        setParameter_length addBatch_parameters Let_def)
    (simp add: setParameter_def addBatch_def Let_def split: sum.splits)

text \<open>
  C4.  The clone shares the parse result and reports the same parameter count, but its
  parameter array is empty, whatever the parameter count: on the clone of a statement
  with two parameters, binding parameter 1 writes \<open>parameters[0]\<close> of an array of size 0.
\<close>

theorem clone_parameters_unsized:
  "parameters (clone this) = []
   \<and> getParameterCount (clone this) = getParameterCount this
   \<and> prepareResult (clone this) = prepareResult this
   \<and> length (parameters (clone (testStatement 2 [None, None] []))) = 0
   \<and> getParameterCount (clone (testStatement 2 [None, None] [])) = 2
   \<and> setParameter ef info (clone (testStatement 2 [None, None] [])) 1 h
        = (Some (OutOfBounds 0 0), clone (testStatement 2 [None, None] []))"
  by (simp add: clone_def ClientSidePreparedStatement_private_def getParameterCount_def
        testStatement_def ClientSidePreparedStatement_new_def setParameter_def Let_def)

section \<open>Batch execution: the sequential loops\<close>

text \<open>Sending a batch entry by entry: the first entry, then the rest from where it left.\<close>

lemma worldAfter_Nil [simp]: "worldAfter T pr [] w = w"
  by (simp add: worldAfter_def)

lemma worldAfter_Cons [simp]:
  "worldAfter T pr (it # es) w = worldAfter T pr es (snd (executeQuery T pr it w))"
  by (simp add: worldAfter_def)

lemma outcomeAt_first [simp]:
  "outcomeAt T pr (it # es) w (Suc 0) = fst (executeQuery T pr it w)"
  by (simp add: outcomeAt_def)

lemma outcomeAt_later [simp]:
  "outcomeAt T pr (it # es) w (Suc (Suc m)) = outcomeAt T pr es (snd (executeQuery T pr it w)) (Suc m)"
  by (simp add: outcomeAt_def)

lemma interruptAt_first [simp]:
  "interruptAt T pr (it # es) w (Suc 0) = stopIfInterrupted T w"
  by (simp add: interruptAt_def)

lemma interruptAt_later [simp]:
  "interruptAt T pr (it # es) w (Suc (Suc m)) = interruptAt T pr es (snd (executeQuery T pr it w)) (Suc m)"
  by (simp add: interruptAt_def)

text \<open>
  Without continue-on-error, both loops stop at the first entry that fails: they throw its
  exception, and the entries sent are those up to it.
\<close>

lemma batchLoop_abort:
  assumes "\<not> continueBatchOnError T"
    and "k < length es"
    and "\<forall>m<k. outcomeAt T pr es w (Suc m) = None"
    and "outcomeAt T pr es w (Suc k) = Some x"
  shows "fst (batchLoop T pr es ex w) = Inl x
       \<and> fst (snd (batchLoop T pr es ex w)) = worldAfter T pr (take (Suc k) es) w
       \<and> dispatched (snd (snd (batchLoop T pr es ex w))) = take (Suc k) es
       \<and> completed (snd (snd (batchLoop T pr es ex w))) = take k es"
  using assms
proof (induction es arbitrary: k w)
  case Nil
  then show ?case by simp
next
  case (Cons it es)
  show ?case
  proof (cases k)
    case 0
    with Cons.prems show ?thesis
      by (cases "executeQuery T pr it w") simp
  next
    case (Suc k')
    have first: "fst (executeQuery T pr it w) = None"
      using Cons.prems(3) Suc by (metis outcomeAt_first zero_less_Suc)
    have rest: "\<forall>m<k'. outcomeAt T pr es (snd (executeQuery T pr it w)) (Suc m) = None"
      using Cons.prems(3) Suc by (metis Suc_less_eq outcomeAt_later)
    have "outcomeAt T pr es (snd (executeQuery T pr it w)) (Suc k') = Some x"
      using Cons.prems(4) Suc by simp
    with Cons.IH[of k' "snd (executeQuery T pr it w)"] Cons.prems(1,2) Suc rest
    have ih: "fst (batchLoop T pr es ex (snd (executeQuery T pr it w))) = Inl x
       \<and> fst (snd (batchLoop T pr es ex (snd (executeQuery T pr it w))))
           = worldAfter T pr (take (Suc k') es) (snd (executeQuery T pr it w))
       \<and> dispatched (snd (snd (batchLoop T pr es ex (snd (executeQuery T pr it w))))) = take (Suc k') es
       \<and> completed (snd (snd (batchLoop T pr es ex (snd (executeQuery T pr it w))))) = take k' es"
      by simp
    show ?thesis
      using first ih Suc
      by (cases "executeQuery T pr it w") (simp add: case_prod_beta)
  qed
qed

lemma batchLoopTimeout_abort:
  assumes "\<not> continueBatchOnError T"
    and "k < length es"
    and "\<forall>m<k. outcomeAt T pr es w (Suc m) = None"
    and "outcomeAt T pr es w (Suc k) = Some x"
    and "\<forall>m\<le>k. interruptAt T pr es w (Suc m) = None"
  shows "fst (batchLoopTimeout T pr es ex w) = Inl x
       \<and> fst (snd (batchLoopTimeout T pr es ex w)) = worldAfter T pr (take (Suc k) es) w
       \<and> dispatched (snd (snd (batchLoopTimeout T pr es ex w))) = take (Suc k) es
       \<and> completed (snd (snd (batchLoopTimeout T pr es ex w))) = take k es"
  using assms
proof (induction es arbitrary: k w)
  case Nil
  then show ?case by simp
next
  case (Cons it es)
  have noint: "stopIfInterrupted T w = None"
    using Cons.prems(5) by (metis interruptAt_first le0)
  show ?case
  proof (cases k)
    case 0
    with Cons.prems noint show ?thesis
      by (cases "executeQuery T pr it w") simp
  next
    case (Suc k')
    have first: "fst (executeQuery T pr it w) = None"
      using Cons.prems(3) Suc by (metis outcomeAt_first zero_less_Suc)
    have rest: "\<forall>m<k'. outcomeAt T pr es (snd (executeQuery T pr it w)) (Suc m) = None"
      using Cons.prems(3) Suc by (metis Suc_less_eq outcomeAt_later)
    have ints: "\<forall>m\<le>k'. interruptAt T pr es (snd (executeQuery T pr it w)) (Suc m) = None"
      using Cons.prems(5) Suc by (metis Suc_le_mono interruptAt_later)
    have "outcomeAt T pr es (snd (executeQuery T pr it w)) (Suc k') = Some x"
      using Cons.prems(4) Suc by simp
    with Cons.IH[of k' "snd (executeQuery T pr it w)"] Cons.prems(1,2) Suc rest ints
    have ih: "fst (batchLoopTimeout T pr es ex (snd (executeQuery T pr it w))) = Inl x
       \<and> fst (snd (batchLoopTimeout T pr es ex (snd (executeQuery T pr it w))))
           = worldAfter T pr (take (Suc k') es) (snd (executeQuery T pr it w))
       \<and> dispatched (snd (snd (batchLoopTimeout T pr es ex (snd (executeQuery T pr it w))))) = take (Suc k') es
       \<and> completed (snd (snd (batchLoopTimeout T pr es ex (snd (executeQuery T pr it w))))) = take k' es"
      by simp
    show ?thesis
      using first ih Suc noint
      by (cases "executeQuery T pr it w") (simp add: case_prod_beta)
  qed
qed


text \<open>
  With continue-on-error, a loop that is not interrupted sends every entry and ends with
  \<open>exception\<close> holding what the last failing entry threw.
\<close>

lemma batchLoop_continue_run:
  assumes "continueBatchOnError T"
  shows "(\<exists>ex'. fst (batchLoop T pr es ex w) = Inr ex')
       \<and> fst (snd (batchLoop T pr es ex w)) = worldAfter T pr es w
       \<and> dispatched (snd (snd (batchLoop T pr es ex w))) = es"
proof (induction es arbitrary: ex w)
  case Nil
  show ?case by simp
next
  case (Cons it es)
  obtain r w' where q: "executeQuery T pr it w = (r, w')" by (cases "executeQuery T pr it w")
  show ?case
  proof (cases r)
    case None
    with q Cons.IH[of ex w'] show ?thesis by (simp add: case_prod_beta)
  next
    case (Some e)
    with q Cons.IH[of e w'] assms show ?thesis by (simp add: case_prod_beta)
  qed
qed

lemma batchLoop_all_ok:
  assumes "\<forall>m<length es. outcomeAt T pr es w (Suc m) = None"
  shows "fst (batchLoop T pr es ex w) = Inr ex"
  using assms
proof (induction es arbitrary: w)
  case Nil
  show ?case by simp
next
  case (Cons it es)
  have first: "fst (executeQuery T pr it w) = None"
    using Cons.prems by (metis length_Cons outcomeAt_first zero_less_Suc)
  have rest: "\<forall>m<length es. outcomeAt T pr es (snd (executeQuery T pr it w)) (Suc m) = None"
    using Cons.prems by (metis Suc_less_eq length_Cons outcomeAt_later)
  show ?case
    using first Cons.IH[OF rest]
    by (cases "executeQuery T pr it w") (simp add: case_prod_beta)
qed

lemma batchLoop_continue_last:
  assumes "continueBatchOnError T"
    and "j < length es"
    and "outcomeAt T pr es w (Suc j) = Some x"
    and "\<forall>m. j < m \<and> m < length es \<longrightarrow> outcomeAt T pr es w (Suc m) = None"
  shows "fst (batchLoop T pr es ex w) = Inr x"
  using assms
proof (induction es arbitrary: j w ex)
  case Nil
  then show ?case by simp
next
  case (Cons it es)
  obtain r w' where q: "executeQuery T pr it w = (r, w')" by (cases "executeQuery T pr it w")
  show ?case
  proof (cases j)
    case 0
    have r: "r = Some x" using Cons.prems(3) 0 q by simp
    have "\<forall>m<length es. outcomeAt T pr es w' (Suc m) = None"
    proof (intro allI impI)
      fix m assume h: "m < length es"
      show "outcomeAt T pr es w' (Suc m) = None"
        using Cons.prems(4)[rule_format, of "Suc m"] h q 0 by simp
    qed
    then have "fst (batchLoop T pr es x w') = Inr x" by (rule batchLoop_all_ok)
    then show ?thesis using q r Cons.prems(1) by (simp add: case_prod_beta)
  next
    case (Suc j')
    have a: "outcomeAt T pr es w' (Suc j') = Some x" using Cons.prems(3) Suc q by simp
    have b: "\<forall>m. j' < m \<and> m < length es \<longrightarrow> outcomeAt T pr es w' (Suc m) = None"
    proof (intro allI impI)
      fix m assume h: "j' < m \<and> m < length es"
      show "outcomeAt T pr es w' (Suc m) = None"
        using Cons.prems(4)[rule_format, of "Suc m"] h q Suc by simp
    qed
    have c: "j' < length es" using Cons.prems(2) Suc by simp
    have ih: "\<And>ex'. fst (batchLoop T pr es ex' w') = Inr x"
      using Cons.IH[OF Cons.prems(1) c a b] .
    show ?thesis using q ih Cons.prems(1)
      by (cases r) (simp_all add: case_prod_beta)
  qed
qed

lemma batchLoopTimeout_continue_run:
  assumes "continueBatchOnError T"
    and "\<forall>m<length es. interruptAt T pr es w (Suc m) = None"
  shows "(\<exists>ex'. fst (batchLoopTimeout T pr es ex w) = Inr ex')
       \<and> fst (snd (batchLoopTimeout T pr es ex w)) = worldAfter T pr es w
       \<and> dispatched (snd (snd (batchLoopTimeout T pr es ex w))) = es"
  using assms(2)
proof (induction es arbitrary: ex w)
  case Nil
  show ?case by simp
next
  case (Cons it es)
  obtain r w' where q: "executeQuery T pr it w = (r, w')" by (cases "executeQuery T pr it w")
  have noint: "stopIfInterrupted T w = None"
    using Cons.prems by (metis interruptAt_first length_Cons zero_less_Suc)
  have ints: "\<forall>m<length es. interruptAt T pr es w' (Suc m) = None"
  proof (intro allI impI)
    fix m assume h: "m < length es"
    show "interruptAt T pr es w' (Suc m) = None"
      using Cons.prems[rule_format, of "Suc m"] h q by simp
  qed
  show ?case
  proof (cases r)
    case None
    with q noint Cons.IH[OF ints, of ex] show ?thesis by (simp add: case_prod_beta)
  next
    case (Some e)
    with q noint Cons.IH[OF ints, of e] assms(1) show ?thesis by (simp add: case_prod_beta)
  qed
qed

lemma batchLoopTimeout_all_ok:
  assumes "\<forall>m<length es. outcomeAt T pr es w (Suc m) = None"
    and "\<forall>m<length es. interruptAt T pr es w (Suc m) = None"
  shows "fst (batchLoopTimeout T pr es ex w) = Inr ex"
  using assms
proof (induction es arbitrary: w)
  case Nil
  show ?case by simp
next
  case (Cons it es)
  have first: "fst (executeQuery T pr it w) = None"
    using Cons.prems(1) by (metis length_Cons outcomeAt_first zero_less_Suc)
  have noint: "stopIfInterrupted T w = None"
    using Cons.prems(2) by (metis interruptAt_first length_Cons zero_less_Suc)
  have rest: "\<forall>m<length es. outcomeAt T pr es (snd (executeQuery T pr it w)) (Suc m) = None"
    using Cons.prems(1) by (metis Suc_less_eq length_Cons outcomeAt_later)
  have ints: "\<forall>m<length es. interruptAt T pr es (snd (executeQuery T pr it w)) (Suc m) = None"
    using Cons.prems(2) by (metis Suc_less_eq length_Cons interruptAt_later)
  show ?case
    using first noint Cons.IH[OF rest ints]
    by (cases "executeQuery T pr it w") (simp add: case_prod_beta)
qed

lemma batchLoopTimeout_continue_last:
  assumes "continueBatchOnError T"
    and "j < length es"
    and "outcomeAt T pr es w (Suc j) = Some x"
    and "\<forall>m. j < m \<and> m < length es \<longrightarrow> outcomeAt T pr es w (Suc m) = None"
    and "\<forall>m<length es. interruptAt T pr es w (Suc m) = None"
  shows "fst (batchLoopTimeout T pr es ex w) = Inr x"
  using assms
proof (induction es arbitrary: j w ex)
  case Nil
  then show ?case by simp
next
  case (Cons it es)
  obtain r w' where q: "executeQuery T pr it w = (r, w')" by (cases "executeQuery T pr it w")
  have noint: "stopIfInterrupted T w = None"
    using Cons.prems(5) by (metis interruptAt_first length_Cons zero_less_Suc)
  have ints: "\<forall>m<length es. interruptAt T pr es w' (Suc m) = None"
  proof (intro allI impI)
    fix m assume h: "m < length es"
    show "interruptAt T pr es w' (Suc m) = None"
      using Cons.prems(5)[rule_format, of "Suc m"] h q by simp
  qed
  show ?case
  proof (cases j)
    case 0
    have r: "r = Some x" using Cons.prems(3) 0 q by simp
    have "\<forall>m<length es. outcomeAt T pr es w' (Suc m) = None"
    proof (intro allI impI)
      fix m assume h: "m < length es"
      show "outcomeAt T pr es w' (Suc m) = None"
        using Cons.prems(4)[rule_format, of "Suc m"] h q 0 by simp
    qed
    then have "fst (batchLoopTimeout T pr es x w') = Inr x"
      using ints by (rule batchLoopTimeout_all_ok)
    then show ?thesis using q r noint Cons.prems(1) by (simp add: case_prod_beta)
  next
    case (Suc j')
    have a: "outcomeAt T pr es w' (Suc j') = Some x" using Cons.prems(3) Suc q by simp
    have b: "\<forall>m. j' < m \<and> m < length es \<longrightarrow> outcomeAt T pr es w' (Suc m) = None"
    proof (intro allI impI)
      fix m assume h: "j' < m \<and> m < length es"
      show "outcomeAt T pr es w' (Suc m) = None"
        using Cons.prems(4)[rule_format, of "Suc m"] h q Suc by simp
    qed
    have c: "j' < length es" using Cons.prems(2) Suc by simp
    have ih: "\<And>ex'. fst (batchLoopTimeout T pr es ex' w') = Inr x"
      using Cons.IH[OF Cons.prems(1) c a b ints] .
    show ?thesis using q ih noint Cons.prems(1)
      by (cases r) (simp_all add: case_prod_beta)
  qed
qed

text \<open>
  The first loop stops at the first cancellation check that throws, whatever the
  continue-on-error option: the check is outside the \<open>try\<close> block.
\<close>

lemma batchLoopTimeout_interrupt:
  assumes "m < length es"
    and "\<forall>p<m. interruptAt T pr es w (Suc p) = None"
    and "interruptAt T pr es w (Suc m) = Some xi"
    and "continueBatchOnError T \<or> (\<forall>p<m. outcomeAt T pr es w (Suc p) = None)"
  shows "fst (batchLoopTimeout T pr es ex w) = Inl xi
       \<and> fst (snd (batchLoopTimeout T pr es ex w)) = worldAfter T pr (take m es) w
       \<and> dispatched (snd (snd (batchLoopTimeout T pr es ex w))) = take m es"
  using assms
proof (induction es arbitrary: m w ex)
  case Nil
  then show ?case by simp
next
  case (Cons it es)
  obtain r w' where q: "executeQuery T pr it w = (r, w')" by (cases "executeQuery T pr it w")
  show ?case
  proof (cases m)
    case 0
    with Cons.prems(3) show ?thesis by simp
  next
    case (Suc m')
    have noint: "stopIfInterrupted T w = None"
      using Cons.prems(2) Suc by (metis interruptAt_first zero_less_Suc)
    have a: "m' < length es" using Cons.prems(1) Suc by simp
    have b: "\<forall>p<m'. interruptAt T pr es w' (Suc p) = None"
    proof (intro allI impI)
      fix p assume h: "p < m'"
      show "interruptAt T pr es w' (Suc p) = None"
        using Cons.prems(2)[rule_format, of "Suc p"] h q Suc by simp
    qed
    have c: "interruptAt T pr es w' (Suc m') = Some xi" using Cons.prems(3) Suc q by simp
    have d: "continueBatchOnError T \<or> (\<forall>p<m'. outcomeAt T pr es w' (Suc p) = None)"
    proof (cases "continueBatchOnError T")
      case True then show ?thesis by simp
    next
      case False
      with Cons.prems(4) have all: "\<forall>p<m. outcomeAt T pr (it # es) w (Suc p) = None" by simp
      have "\<forall>p<m'. outcomeAt T pr es w' (Suc p) = None"
      proof (intro allI impI)
        fix p assume h: "p < m'"
        show "outcomeAt T pr es w' (Suc p) = None"
          using all[rule_format, of "Suc p"] h q Suc by simp
      qed
      then show ?thesis by simp
    qed
    have e: "continueBatchOnError T \<or> r = None"
    proof (cases "continueBatchOnError T")
      case True then show ?thesis by simp
    next
      case False
      with Cons.prems(4) have all: "\<forall>p<m. outcomeAt T pr (it # es) w (Suc p) = None" by simp
      show ?thesis using all[rule_format, of 0] Suc q by simp
    qed
    have ih: "\<And>ex'. fst (batchLoopTimeout T pr es ex' w') = Inl xi
       \<and> fst (snd (batchLoopTimeout T pr es ex' w')) = worldAfter T pr (take m' es) w'
       \<and> dispatched (snd (snd (batchLoopTimeout T pr es ex' w'))) = take m' es"
      using Cons.IH[OF a b c d] .
    show ?thesis using q ih noint e Suc
      by (cases r) (auto simp add: case_prod_beta)
  qed
qed

text \<open>The calls the loops make.\<close>

lemma batchLoopTimeout_checked:
  "checkedFrom b (snd (snd (batchLoopTimeout T pr es ex w)))"
proof (induction es arbitrary: b ex w)
  case Nil
  show ?case by simp
next
  case (Cons it es)
  show ?case
    by (cases "executeQuery T pr it w")
       (simp add: case_prod_beta Cons.IH split: option.splits)
qed

lemma batchLoopTimeout_calls:
  "e \<in> set (snd (snd (batchLoopTimeout T pr es ex w))) \<Longrightarrow> e = StopIfInterrupted \<or> isDispatch e"
proof (induction es arbitrary: ex w)
  case Nil
  then show ?case by simp
next
  case (Cons it es)
  then show ?case
    by (cases "executeQuery T pr it w")
       (auto simp add: case_prod_beta split: option.splits if_splits)
qed

lemma batchLoop_calls:
  "e \<in> set (snd (snd (batchLoop T pr es ex w))) \<Longrightarrow> isDispatch e"
proof (induction es arbitrary: ex w)
  case Nil
  then show ?case by simp
next
  case (Cons it es)
  then show ?case
    by (cases "executeQuery T pr it w")
       (auto simp add: case_prod_beta split: option.splits if_splits)
qed

section \<open>Batch execution: \<open>executeBatch\<close>\<close>

lemma dispatched_append: "dispatched (xs @ ys) = dispatched xs @ dispatched ys"
  by (induction xs rule: dispatched.induct) simp_all

lemma completed_append: "completed (xs @ ys) = completed xs @ completed ys"
  by (induction xs rule: completed.induct) simp_all

lemma executeInternalBatch_fallback:
  assumes "fallbackWorld T this w = Some w2"
  shows "executeInternalBatch T this (length (parameterList this)) w =
           (fst (executeSequential T (prepareResult this) (parameterList this) w2),
            fst (snd (executeSequential T (prepareResult this) (parameterList this) w2)),
            [ExecuteQueryPrologue True, SetInternalResults (length (parameterList this)),
             ExecuteBatchClient]
            @ snd (snd (executeSequential T (prepareResult this) (parameterList this) w2)))"
  using assms
  by (auto simp: fallbackWorld_def executeInternalBatch_def case_prod_beta
           split: if_splits prod.splits option.splits sum.splits bool.splits)

lemma executeBatchBody_fallback_throw:
  assumes "fallbackWorld T this w = Some w2"
    and "fst (executeSequential T (prepareResult this) (parameterList this) w2) = Some x"
  shows "executeBatchBody getCounts T this w =
           batchCatch T x (length (parameterList this))
             (fst (snd (executeSequential T (prepareResult this) (parameterList this) w2)))
             ([CheckClose, LockAcquire, ExecuteQueryPrologue True,
               SetInternalResults (length (parameterList this)), ExecuteBatchClient]
              @ snd (snd (executeSequential T (prepareResult this) (parameterList this) w2)))"
proof -
  have "checkClose T w = None" "parameterList this \<noteq> []"
    using assms(1) by (auto simp: fallbackWorld_def split: if_splits)
  then show ?thesis
    using assms(2) executeInternalBatch_fallback[OF assms(1)]
    by (simp add: executeBatchBody_def Let_def)
qed

lemma executeSequential_abort:
  assumes "\<not> continueBatchOnError T"
    and "k < length es"
    and "\<forall>m<k. outcomeAt T pr es w (Suc m) = None"
    and "outcomeAt T pr es w (Suc k) = Some x"
    and "0 < queryTimeout T \<longrightarrow> (\<forall>m\<le>k. interruptAt T pr es w (Suc m) = None)"
  shows "fst (executeSequential T pr es w) = Some x
       \<and> fst (snd (executeSequential T pr es w)) = worldAfter T pr (take (Suc k) es) w
       \<and> dispatched (snd (snd (executeSequential T pr es w))) = take (Suc k) es
       \<and> completed (snd (snd (executeSequential T pr es w))) = take k es"
proof (cases "0 < queryTimeout T")
  case True
  with assms(5) have "\<forall>m\<le>k. interruptAt T pr es w (Suc m) = None" by simp
  from batchLoopTimeout_abort[OF assms(1-4) this, of emptyException] True
  show ?thesis by (simp add: executeSequential_def case_prod_beta)
next
  case False
  from batchLoop_abort[OF assms(1-4), of emptyException] False
  show ?thesis by (simp add: executeSequential_def case_prod_beta)
qed

lemma executeSequential_continue:
  assumes "continueBatchOnError T"
    and "j < length es"
    and "outcomeAt T pr es w (Suc j) = Some x"
    and "\<forall>m. j < m \<and> m < length es \<longrightarrow> outcomeAt T pr es w (Suc m) = None"
    and "hasMessage x"
    and "0 < queryTimeout T \<longrightarrow> (\<forall>m<length es. interruptAt T pr es w (Suc m) = None)"
  shows "fst (executeSequential T pr es w) = Some x
       \<and> fst (snd (executeSequential T pr es w)) = worldAfter T pr es w
       \<and> dispatched (snd (snd (executeSequential T pr es w))) = es"
proof (cases "0 < queryTimeout T")
  case True
  with assms(6) have ints: "\<forall>m<length es. interruptAt T pr es w (Suc m) = None" by simp
  from batchLoopTimeout_continue_last[OF assms(1-4) ints, of emptyException]
       batchLoopTimeout_continue_run[OF assms(1) ints, of emptyException] True assms(5)
  show ?thesis by (simp add: executeSequential_def case_prod_beta)
next
  case False
  from batchLoop_continue_last[OF assms(1-4), of emptyException]
       batchLoop_continue_run[OF assms(1), of pr es emptyException w] False assms(5)
  show ?thesis by (simp add: executeSequential_def case_prod_beta)
qed

lemma executeSequential_interrupt:
  assumes "0 < queryTimeout T"
    and "m < length es"
    and "\<forall>p<m. interruptAt T pr es w (Suc p) = None"
    and "interruptAt T pr es w (Suc m) = Some xi"
    and "continueBatchOnError T \<or> (\<forall>p<m. outcomeAt T pr es w (Suc p) = None)"
  shows "fst (executeSequential T pr es w) = Some xi
       \<and> fst (snd (executeSequential T pr es w)) = worldAfter T pr (take m es) w
       \<and> dispatched (snd (snd (executeSequential T pr es w))) = take m es"
  using batchLoopTimeout_interrupt[OF assms(2-5), of emptyException] assms(1)
  by (simp add: executeSequential_def case_prod_beta)

text \<open>
  C6.  Continue-on-error is disabled, \<open>executeBatch\<close> reaches the sequential loops, and
  the entry at position \<open>k\<close> is the first that fails, with \<open>x\<close> (the entries before it do
  not fail, and no cancellation check up to it throws).  Then \<open>executeBatch\<close> raises \<open>x\<close>,
  as \<open>executeBatchExceptionEpilogue\<close> hands it back for the batch size; the collaborators,
  with the result sink among them, are left as after the epilogue on what the first \<open>k\<close>
  calls of \<open>executeQuery\<close> made of them; the entries sent are exactly the first \<open>k\<close>, so no
  entry after position \<open>k\<close> is sent; and the entries whose call returned are the
  \<open>k - 1\<close> before position \<open>k\<close>.
\<close>

theorem executeBatch_aborts_at_first_failure:
  assumes "\<not> continueBatchOnError T"
    and "fallbackWorld T this w = Some w2"
    and "1 \<le> k" and "k \<le> length (parameterList this)"
    and "\<forall>p. 1 \<le> p \<and> p < k \<longrightarrow> outcomeAt T (prepareResult this) (parameterList this) w2 p = None"
    and "outcomeAt T (prepareResult this) (parameterList this) w2 k = Some x"
    and "0 < queryTimeout T \<longrightarrow>
           (\<forall>p. 1 \<le> p \<and> p \<le> k \<longrightarrow> interruptAt T (prepareResult this) (parameterList this) w2 p = None)"
  shows "fst (executeBatch T this w)
           = Inl (executeBatchExceptionEpilogue T x (length (parameterList this))
                    (fst (snd (executeBatch T this w))))
       \<and> fst (snd (executeBatch T this w))
           = executeBatchEpilogue T
               (worldAfter T (prepareResult this) (take k (parameterList this)) w2)
       \<and> dispatched (snd (snd (executeBatch T this w))) = take k (parameterList this)
       \<and> completed (snd (snd (executeBatch T this w))) = take (k - 1) (parameterList this)
       \<and> length (completed (snd (snd (executeBatch T this w)))) = k - 1"
proof -
  obtain k' where k: "k = Suc k'" using assms(3) by (cases k) auto
  have a: "k' < length (parameterList this)" using assms(4) k by simp
  have b: "\<forall>m<k'. outcomeAt T (prepareResult this) (parameterList this) w2 (Suc m) = None"
    using assms(5) k by simp
  have c: "outcomeAt T (prepareResult this) (parameterList this) w2 (Suc k') = Some x"
    using assms(6) k by simp
  have d: "0 < queryTimeout T \<longrightarrow>
             (\<forall>m\<le>k'. interruptAt T (prepareResult this) (parameterList this) w2 (Suc m) = None)"
    using assms(7) k by simp
  note seq = executeSequential_abort[OF assms(1) a b c d]
  show ?thesis
    using executeBatchBody_fallback_throw[OF assms(2) seq[THEN conjunct1], of "getUpdateCounts T"]
          seq a k
    by (simp add: executeBatch_def batchCatch_def Let_def dispatched_append completed_append)
qed


theorem executeBatch_aborts_at_first_failure_witness:
  "fst (executeBatch (testCollaborators False 5)
          (testStatement 1 [None] [entry ''a'', entry ''dup'', entry ''b'', entry ''null'']) testWorld)
     = Inl dupError
   \<and> getUpdateCounts (testCollaborators False 5)
        (fst (snd (executeBatch (testCollaborators False 5)
          (testStatement 1 [None] [entry ''a'', entry ''dup'', entry ''b'', entry ''null'']) testWorld)))
     = [1]
   \<and> dispatched (snd (snd (executeBatch (testCollaborators False 5)
          (testStatement 1 [None] [entry ''a'', entry ''dup'', entry ''b'', entry ''null'']) testWorld)))
     = [entry ''a'', entry ''dup'']
   \<and> completed (snd (snd (executeBatch (testCollaborators False 5)
          (testStatement 1 [None] [entry ''a'', entry ''dup'', entry ''b'', entry ''null'']) testWorld)))
     = [entry ''a'']"
proof -
  let ?T = "testCollaborators False 5"
  let ?s = "testStatement 1 [None] [entry ''a'', entry ''dup'', entry ''b'', entry ''null'']"
  let ?w2 = "testWorld\<lparr>recordedCounts := []\<rparr>"
  have h1: "\<not> continueBatchOnError ?T" by (simp add: testCollaborators_def)
  have h2: "fallbackWorld ?T ?s testWorld = Some ?w2"
    by (simp add: fallbackWorld_def testCollaborators_def testStatement_def testWorld_def
          ClientSidePreparedStatement_new_def)
  have h3: "(1::nat) \<le> 2" by simp
  have h4: "2 \<le> length (parameterList ?s)"
    by (simp add: testStatement_def ClientSidePreparedStatement_new_def)
  have o1: "outcomeAt ?T (prepareResult ?s) (parameterList ?s) ?w2 1 = None"
    by (simp add: outcomeAt_def worldAfter_def testCollaborators_def testStatement_def
          ClientSidePreparedStatement_new_def entry_def)
  have h5: "\<forall>p. 1 \<le> p \<and> p < 2 \<longrightarrow> outcomeAt ?T (prepareResult ?s) (parameterList ?s) ?w2 p = None"
  proof (intro allI impI)
    fix p :: nat assume "1 \<le> p \<and> p < 2"
    then have "p = 1" by simp
    with o1 show "outcomeAt ?T (prepareResult ?s) (parameterList ?s) ?w2 p = None" by simp
  qed
  have h6: "outcomeAt ?T (prepareResult ?s) (parameterList ?s) ?w2 2 = Some dupError"
    by (simp add: outcomeAt_def worldAfter_def testCollaborators_def testStatement_def
          ClientSidePreparedStatement_new_def entry_def)
  have i1: "interruptAt ?T (prepareResult ?s) (parameterList ?s) ?w2 1 = None"
    by (simp add: interruptAt_def worldAfter_def testCollaborators_def testStatement_def
          ClientSidePreparedStatement_new_def entry_def testWorld_def)
  have i2: "interruptAt ?T (prepareResult ?s) (parameterList ?s) ?w2 2 = None"
    by (simp add: interruptAt_def worldAfter_def testCollaborators_def testStatement_def
          ClientSidePreparedStatement_new_def entry_def testWorld_def)
  have h7: "0 < queryTimeout ?T \<longrightarrow>
           (\<forall>p. 1 \<le> p \<and> p \<le> 2 \<longrightarrow> interruptAt ?T (prepareResult ?s) (parameterList ?s) ?w2 p = None)"
  proof (intro allI impI)
    fix p :: nat assume "1 \<le> p \<and> p \<le> 2"
    then have "p = 1 \<or> p = 2" by auto
    with i1 i2 show "interruptAt ?T (prepareResult ?s) (parameterList ?s) ?w2 p = None" by auto
  qed
  have tk: "take 2 (parameterList ?s) = [entry ''a'', entry ''dup'']"
    by (simp add: testStatement_def ClientSidePreparedStatement_new_def)
  have wa: "worldAfter ?T (prepareResult ?s) [entry ''a'', entry ''dup''] ?w2
              = testWorld\<lparr>recordedCounts := [1]\<rparr>"
    by (simp add: worldAfter_def testCollaborators_def entry_def)
  show ?thesis
    using executeBatch_aborts_at_first_failure[OF h1 h2 h3 h4 h5 h6 h7] tk wa
    by (simp add: testCollaborators_def testStatement_def ClientSidePreparedStatement_new_def)
qed

text \<open>
  C1, amended.  Continue-on-error is enabled, \<open>executeBatch\<close> reaches the sequential loops,
  no cancellation check throws, the entries at positions \<open>i < j\<close> fail and no entry after
  \<open>j\<close> does.  Then every queued entry is sent, one error is raised after the loop (the
  calls are: the loop's, then the epilogue and the exception epilogue), and it is what
  the entry at position \<open>j\<close>, the last that failed, threw, provided the message of that
  exception does not start with the terminator.
\<close>

theorem executeBatch_continue_raises_last_failure:
  assumes "continueBatchOnError T"
    and "fallbackWorld T this w = Some w2"
    and "1 \<le> i" and "i < j" and "j \<le> length (parameterList this)"
    and "outcomeAt T (prepareResult this) (parameterList this) w2 i = Some xi"
    and "outcomeAt T (prepareResult this) (parameterList this) w2 j = Some xj"
    and "\<forall>p. j < p \<and> p \<le> length (parameterList this)
           \<longrightarrow> outcomeAt T (prepareResult this) (parameterList this) w2 p = None"
    and "hasMessage xj"
    and "0 < queryTimeout T \<longrightarrow>
           (\<forall>p. 1 \<le> p \<and> p \<le> length (parameterList this)
              \<longrightarrow> interruptAt T (prepareResult this) (parameterList this) w2 p = None)"
  shows "fst (executeBatch T this w)
           = Inl (executeBatchExceptionEpilogue T xj (length (parameterList this))
                    (fst (snd (executeBatch T this w))))
       \<and> fst (snd (executeBatch T this w))
           = executeBatchEpilogue T (worldAfter T (prepareResult this) (parameterList this) w2)
       \<and> dispatched (snd (snd (executeBatch T this w))) = parameterList this
       \<and> snd (snd (executeBatch T this w))
           = [CheckClose, LockAcquire, ExecuteQueryPrologue True,
              SetInternalResults (length (parameterList this)), ExecuteBatchClient]
             @ snd (snd (executeSequential T (prepareResult this) (parameterList this) w2))
             @ [ExecuteBatchEpilogue, ExecuteBatchExceptionEpilogue (length (parameterList this)),
                LockRelease]
       \<and> dispatched (snd (snd (executeSequential T (prepareResult this) (parameterList this) w2)))
           = parameterList this"
proof -
  obtain j' where j: "j = Suc j'" using assms(3,4) by (cases j) auto
  have a: "j' < length (parameterList this)" using assms(5) j by simp
  have b: "outcomeAt T (prepareResult this) (parameterList this) w2 (Suc j') = Some xj"
    using assms(7) j by simp
  have c: "\<forall>m. j' < m \<and> m < length (parameterList this)
             \<longrightarrow> outcomeAt T (prepareResult this) (parameterList this) w2 (Suc m) = None"
    using assms(8) j by simp
  have d: "0 < queryTimeout T \<longrightarrow>
             (\<forall>m<length (parameterList this).
                interruptAt T (prepareResult this) (parameterList this) w2 (Suc m) = None)"
    using assms(10) by simp
  note seq = executeSequential_continue[OF assms(1) a b c assms(9) d]
  show ?thesis
    using executeBatchBody_fallback_throw[OF assms(2) seq[THEN conjunct1], of "getUpdateCounts T"]
          seq
    by (simp add: executeBatch_def batchCatch_def Let_def dispatched_append)
qed

theorem executeBatch_continue_raises_last_failure_witness:
  "fst (executeBatch (testCollaborators True 5)
          (testStatement 1 [None] [entry ''dup'', entry ''a'', entry ''null'', entry ''b''])
          testWorld)
     = Inl nullError
   \<and> dispatched (snd (snd (executeBatch (testCollaborators True 5)
          (testStatement 1 [None] [entry ''dup'', entry ''a'', entry ''null'', entry ''b''])
          testWorld)))
     = [entry ''dup'', entry ''a'', entry ''null'', entry ''b'']"
proof -
  let ?T = "testCollaborators True 5"
  let ?s = "testStatement 1 [None] [entry ''dup'', entry ''a'', entry ''null'', entry ''b'']"
  let ?w2 = "testWorld\<lparr>recordedCounts := []\<rparr>"
  have h1: "continueBatchOnError ?T" by (simp add: test_defs)
  have h2: "fallbackWorld ?T ?s testWorld = Some ?w2" by (simp add: fallbackWorld_def test_defs)
  have h3: "(1::nat) \<le> 1" "(1::nat) < 3" "3 \<le> length (parameterList ?s)"
    by (simp_all add: test_defs)
  have h6: "outcomeAt ?T (prepareResult ?s) (parameterList ?s) ?w2 1 = Some dupError"
    by (simp add: outcomeAt_def worldAfter_def test_defs)
  have h7: "outcomeAt ?T (prepareResult ?s) (parameterList ?s) ?w2 3 = Some nullError"
    by (simp add: outcomeAt_def worldAfter_def test_defs)
  have o4: "outcomeAt ?T (prepareResult ?s) (parameterList ?s) ?w2 4 = None"
    by (simp add: outcomeAt_def worldAfter_def test_defs)
  have h8: "\<forall>p. 3 < p \<and> p \<le> length (parameterList ?s)
              \<longrightarrow> outcomeAt ?T (prepareResult ?s) (parameterList ?s) ?w2 p = None"
  proof (intro allI impI)
    fix p :: nat assume "3 < p \<and> p \<le> length (parameterList ?s)"
    then have "p = 4" by (simp add: test_defs)
    with o4 show "outcomeAt ?T (prepareResult ?s) (parameterList ?s) ?w2 p = None" by simp
  qed
  have h9: "hasMessage nullError" by (simp add: hasMessage_def nullError_def)
  have i: "interruptAt ?T (prepareResult ?s) (parameterList ?s) ?w2 1 = None"
          "interruptAt ?T (prepareResult ?s) (parameterList ?s) ?w2 2 = None"
          "interruptAt ?T (prepareResult ?s) (parameterList ?s) ?w2 3 = None"
          "interruptAt ?T (prepareResult ?s) (parameterList ?s) ?w2 4 = None"
    by (simp_all add: interruptAt_def worldAfter_def test_defs)
  have h10: "0 < queryTimeout ?T \<longrightarrow>
           (\<forall>p. 1 \<le> p \<and> p \<le> length (parameterList ?s)
              \<longrightarrow> interruptAt ?T (prepareResult ?s) (parameterList ?s) ?w2 p = None)"
  proof (intro allI impI)
    fix p :: nat assume "1 \<le> p \<and> p \<le> length (parameterList ?s)"
    then have "p = 1 \<or> p = 2 \<or> p = 3 \<or> p = 4" by (auto simp add: test_defs)
    with i show "interruptAt ?T (prepareResult ?s) (parameterList ?s) ?w2 p = None" by auto
  qed
  show ?thesis
    using executeBatch_continue_raises_last_failure[OF h1 h2 h3 h6 h7 h8 h9 h10]
    by (simp add: test_defs dispatched_append)
qed

text \<open>
  C1, as stated, fails: with continue-on-error enabled and a batch of two entries that
  both fail, the first with "Duplicate entry" and the second with "Column cannot be
  null", \<open>executeBatch\<close> raises the second failure, not the first.
\<close>

theorem executeBatch_first_failure_counterexample:
  "outcomeAt (testCollaborators True 0) \<lparr>getParamCount = 1\<rparr> [entry ''dup'', entry ''null'']
       (testWorld\<lparr>recordedCounts := []\<rparr>) 1 = Some dupError
   \<and> outcomeAt (testCollaborators True 0) \<lparr>getParamCount = 1\<rparr> [entry ''dup'', entry ''null'']
       (testWorld\<lparr>recordedCounts := []\<rparr>) 2 = Some nullError
   \<and> fst (executeBatch (testCollaborators True 0)
            (testStatement 1 [None] [entry ''dup'', entry ''null'']) testWorld) = Inl nullError
   \<and> fst (executeBatch (testCollaborators True 0)
            (testStatement 1 [None] [entry ''dup'', entry ''null'']) testWorld) \<noteq> Inl dupError"
  by (simp add: outcomeAt_def worldAfter_def testCollaborators_def entry_def
        executeBatch_def executeBatchBody_def executeInternalBatch_def executeSequential_def
        batchCatch_def testStatement_def ClientSidePreparedStatement_new_def testWorld_def
        emptyException_def hasMessage_def nullError_def dupError_def Let_def)


subsection \<open>The calls of \<open>executeBatch\<close>\<close>

lemma checkedFrom_no_dispatch:
  "\<forall>e\<in>set evs. \<not> isDispatch e \<Longrightarrow> checkedFrom b evs"
  by (induction evs arbitrary: b) simp_all

lemma checkedFrom_append_tail:
  "checkedFrom b evs \<Longrightarrow> \<forall>e\<in>set post. \<not> isDispatch e \<Longrightarrow> checkedFrom b (evs @ post)"
  by (induction evs arbitrary: b) (simp_all add: checkedFrom_no_dispatch)

lemma executeSequential_checked:
  "0 < queryTimeout T \<Longrightarrow> checkedFrom b (snd (snd (executeSequential T pr es w)))"
  using batchLoopTimeout_checked[of b T pr es emptyException w]
  by (simp add: executeSequential_def case_prod_beta split: sum.splits)

lemma executeSequential_calls:
  "e \<in> set (snd (snd (executeSequential T pr es w))) \<Longrightarrow>
     (e = StopIfInterrupted \<and> 0 < queryTimeout T) \<or> isDispatch e"
  using batchLoopTimeout_calls[of e T pr es emptyException w]
        batchLoop_calls[of e T pr es emptyException w]
  by (auto simp add: executeSequential_def case_prod_beta split: sum.splits if_splits)

lemma executeInternalBatch_checked:
  assumes "0 < queryTimeout T" and "\<forall>e\<in>set post. \<not> isDispatch e"
  shows "checkedFrom b (snd (snd (executeInternalBatch T this n w)) @ post)"
proof -
  have seq: "\<And>b pr es w. checkedFrom b (snd (snd (executeSequential T pr es w)) @ post)"
    using checkedFrom_append_tail[OF executeSequential_checked[OF assms(1)] assms(2)] .
  show ?thesis
    by (simp add: executeInternalBatch_def case_prod_beta seq checkedFrom_no_dispatch assms(2)
             split: option.splits sum.splits bool.splits)
qed

lemma executeInternalBatch_calls:
  "e \<in> set (snd (snd (executeInternalBatch T this n w))) \<Longrightarrow>
     e = ExecuteQueryPrologue True \<or> e = SetInternalResults n \<or> e = ExecuteBatchClient
     \<or> (e = StopIfInterrupted \<and> 0 < queryTimeout T) \<or> isDispatch e"
  by (auto simp add: executeInternalBatch_def case_prod_beta
           split: option.splits sum.splits bool.splits
           dest: executeSequential_calls)

lemma executeBatchBody_checked:
  assumes "0 < queryTimeout T"
  shows "checkedBeforeDispatch (snd (snd (executeBatchBody getCounts T this w)))"
proof -
  have a: "\<And>b post. \<forall>e\<in>set post. \<not> isDispatch e \<Longrightarrow>
             checkedFrom b (snd (snd (executeInternalBatch T this (length (parameterList this)) w)) @ post)"
    using executeInternalBatch_checked[OF assms] by blast
  show ?thesis
    using a[of "[ExecuteBatchEpilogue, ExecuteBatchExceptionEpilogue (length (parameterList this)), LockRelease]" False]
          a[of "[CommandEnd, ExecuteBatchEpilogue, ExecuteBatchExceptionEpilogue (length (parameterList this)), LockRelease]" False]
          a[of "[CommandEnd, LockRelease]" False]
    by (simp add: checkedBeforeDispatch_def executeBatchBody_def batchCatch_def Let_def
          case_prod_beta
          split: option.splits)
qed

lemma executeBatchBody_calls:
  "e \<in> set (snd (snd (executeBatchBody getCounts T this w))) \<Longrightarrow>
     e \<in> {CheckClose, LockAcquire, LockRelease, CommandEnd, ExecuteBatchEpilogue,
          ExecuteBatchExceptionEpilogue (length (parameterList this)),
          ExecuteQueryPrologue True, SetInternalResults (length (parameterList this)),
          ExecuteBatchClient}
     \<or> (e = StopIfInterrupted \<and> 0 < queryTimeout T) \<or> isDispatch e"
  by (auto simp add: executeBatchBody_def batchCatch_def Let_def case_prod_beta
           split: option.splits if_splits
           dest: executeInternalBatch_calls)

lemma executeBatchBody_failure_epilogue:
  "checkClose T w = None \<Longrightarrow> fst (executeBatchBody getCounts T this w) = Inl e \<Longrightarrow>
   ExecuteBatchEpilogue \<in> set (snd (snd (executeBatchBody getCounts T this w)))"
  by (auto simp add: executeBatchBody_def batchCatch_def Let_def case_prod_beta
           split: option.splits if_splits)

lemma executeBatchBody_success_calls:
  "fst (executeBatchBody getCounts T this w) = Inr r \<Longrightarrow>
   e \<in> set (snd (snd (executeBatchBody getCounts T this w))) \<Longrightarrow>
     e \<in> {CheckClose, LockAcquire, LockRelease, CommandEnd,
          ExecuteQueryPrologue True, SetInternalResults (length (parameterList this)),
          ExecuteBatchClient, StopIfInterrupted}
     \<or> isDispatch e"
  by (auto simp add: executeBatchBody_def batchCatch_def Let_def case_prod_beta
           split: option.splits if_splits
           dest: executeInternalBatch_calls)

section \<open>Batch execution: cancellation, cleanup and the empty queue\<close>

text \<open>
  C7, amended.  When the statement timeout is greater than zero, every \<open>executeQuery\<close> of
  \<open>executeBatch\<close> comes right after a cancellation check; and if, in the sequential loops,
  the check before the entry at position \<open>m\<close> is the first that throws (the loop has not
  stopped before, because continue-on-error is enabled or no earlier entry fails), then
  exactly the \<open>m - 1\<close> entries before it are sent, the entries from \<open>m\<close> on never are, and
  \<open>executeBatch\<close> raises what the check threw, as the exception epilogue hands it back.
  When the statement timeout is zero or negative, \<open>executeBatch\<close> makes no cancellation
  check at all.
\<close>

theorem executeBatch_cancellation_check:
  "(0 < queryTimeout T \<longrightarrow> checkedBeforeDispatch (snd (snd (executeBatch T this w))))
   \<and> (0 < queryTimeout T \<and> fallbackWorld T this w = Some w2
        \<and> 1 \<le> m \<and> m \<le> length (parameterList this)
        \<and> (\<forall>p. 1 \<le> p \<and> p < m
               \<longrightarrow> interruptAt T (prepareResult this) (parameterList this) w2 p = None)
        \<and> interruptAt T (prepareResult this) (parameterList this) w2 m = Some xi
        \<and> (continueBatchOnError T
             \<or> (\<forall>p. 1 \<le> p \<and> p < m
                    \<longrightarrow> outcomeAt T (prepareResult this) (parameterList this) w2 p = None))
       \<longrightarrow> dispatched (snd (snd (executeBatch T this w))) = take (m - 1) (parameterList this)
           \<and> fst (executeBatch T this w)
               = Inl (executeBatchExceptionEpilogue T xi (length (parameterList this))
                        (fst (snd (executeBatch T this w)))))
   \<and> (queryTimeout T \<le> 0 \<longrightarrow> StopIfInterrupted \<notin> set (snd (snd (executeBatch T this w))))"
proof (intro conjI impI)
  assume "0 < queryTimeout T"
  then show "checkedBeforeDispatch (snd (snd (executeBatch T this w)))"
    by (simp add: executeBatch_def executeBatchBody_checked)
next
  assume "queryTimeout T \<le> 0"
  then show "StopIfInterrupted \<notin> set (snd (snd (executeBatch T this w)))"
    using executeBatchBody_calls[of StopIfInterrupted "getUpdateCounts T" T this w]
    by (auto simp add: executeBatch_def)
next
  assume h: "0 < queryTimeout T \<and> fallbackWorld T this w = Some w2
        \<and> 1 \<le> m \<and> m \<le> length (parameterList this)
        \<and> (\<forall>p. 1 \<le> p \<and> p < m
               \<longrightarrow> interruptAt T (prepareResult this) (parameterList this) w2 p = None)
        \<and> interruptAt T (prepareResult this) (parameterList this) w2 m = Some xi
        \<and> (continueBatchOnError T
             \<or> (\<forall>p. 1 \<le> p \<and> p < m
                    \<longrightarrow> outcomeAt T (prepareResult this) (parameterList this) w2 p = None))"
  then obtain m' where m: "m = Suc m'" by (cases m) auto
  have a: "0 < queryTimeout T" and fb: "fallbackWorld T this w = Some w2" using h by simp_all
  have b: "m' < length (parameterList this)" using h m by simp
  have c: "\<forall>p<m'. interruptAt T (prepareResult this) (parameterList this) w2 (Suc p) = None"
    using h m by simp
  have d: "interruptAt T (prepareResult this) (parameterList this) w2 (Suc m') = Some xi"
    using h m by simp
  have e: "continueBatchOnError T
             \<or> (\<forall>p<m'. outcomeAt T (prepareResult this) (parameterList this) w2 (Suc p) = None)"
    using h m by auto
  note seq = executeSequential_interrupt[OF a b c d e]
  have r: "dispatched (snd (snd (executeBatch T this w))) = take (m - 1) (parameterList this)
           \<and> fst (executeBatch T this w)
               = Inl (executeBatchExceptionEpilogue T xi (length (parameterList this))
                        (fst (snd (executeBatch T this w))))"
    using executeBatchBody_fallback_throw[OF fb seq[THEN conjunct1], of "getUpdateCounts T"]
          seq m
    by (simp add: executeBatch_def batchCatch_def Let_def dispatched_append)
  from r show "dispatched (snd (snd (executeBatch T this w))) = take (m - 1) (parameterList this)"
    by simp
  from r show "fst (executeBatch T this w)
               = Inl (executeBatchExceptionEpilogue T xi (length (parameterList this))
                        (fst (snd (executeBatch T this w))))"
    by simp
qed

theorem executeBatch_cancellation_check_witness:
  "checkedBeforeDispatch (snd (snd (executeBatch (testCollaborators True 5)
      (testStatement 1 [None] [entry ''dup'', entry ''slow'', entry ''null'', entry ''b''])
      testWorld)))
   \<and> dispatched (snd (snd (executeBatch (testCollaborators True 5)
      (testStatement 1 [None] [entry ''dup'', entry ''slow'', entry ''null'', entry ''b''])
      testWorld)))
     = [entry ''dup'', entry ''slow'']
   \<and> fst (executeBatch (testCollaborators True 5)
      (testStatement 1 [None] [entry ''dup'', entry ''slow'', entry ''null'', entry ''b''])
      testWorld) = Inl timeoutError
   \<and> StopIfInterrupted \<notin> set (snd (snd (executeBatch (testCollaborators True 0)
      (testStatement 1 [None] [entry ''dup'', entry ''slow'', entry ''null'', entry ''b''])
      testWorld)))"
proof -
  let ?T = "testCollaborators True 5"
  let ?s = "testStatement 1 [None] [entry ''dup'', entry ''slow'', entry ''null'', entry ''b'']"
  let ?w2 = "testWorld\<lparr>recordedCounts := []\<rparr>"
  have i: "interruptAt ?T (prepareResult ?s) (parameterList ?s) ?w2 1 = None"
          "interruptAt ?T (prepareResult ?s) (parameterList ?s) ?w2 2 = None"
          "interruptAt ?T (prepareResult ?s) (parameterList ?s) ?w2 3 = Some timeoutError"
    by (simp_all add: interruptAt_def worldAfter_def test_defs)
  have ints: "\<forall>p. 1 \<le> p \<and> p < 3
               \<longrightarrow> interruptAt ?T (prepareResult ?s) (parameterList ?s) ?w2 p = None"
  proof (intro allI impI)
    fix p :: nat assume "1 \<le> p \<and> p < 3"
    then have "p = 1 \<or> p = 2" by auto
    with i show "interruptAt ?T (prepareResult ?s) (parameterList ?s) ?w2 p = None" by auto
  qed
  have h: "0 < queryTimeout ?T \<and> fallbackWorld ?T ?s testWorld = Some ?w2
        \<and> 1 \<le> (3::nat) \<and> 3 \<le> length (parameterList ?s)
        \<and> (\<forall>p. 1 \<le> p \<and> p < 3
               \<longrightarrow> interruptAt ?T (prepareResult ?s) (parameterList ?s) ?w2 p = None)
        \<and> interruptAt ?T (prepareResult ?s) (parameterList ?s) ?w2 3 = Some timeoutError
        \<and> (continueBatchOnError ?T
             \<or> (\<forall>p. 1 \<le> p \<and> p < 3
                    \<longrightarrow> outcomeAt ?T (prepareResult ?s) (parameterList ?s) ?w2 p = None))"
    using ints i(3) by (simp add: fallbackWorld_def test_defs)
  have t5: "0 < queryTimeout ?T" by (simp add: test_defs)
  have t0: "queryTimeout (testCollaborators True 0) \<le> 0" by (simp add: test_defs)
  note thm5 = executeBatch_cancellation_check[of ?T ?s testWorld ?w2 3 timeoutError]
  note thm0 = executeBatch_cancellation_check[of "testCollaborators True 0" ?s testWorld ?w2 3 timeoutError]
  have p1: "checkedBeforeDispatch (snd (snd (executeBatch ?T ?s testWorld)))"
    using thm5 t5 by blast
  have p2: "dispatched (snd (snd (executeBatch ?T ?s testWorld))) = take (3 - 1) (parameterList ?s)
           \<and> fst (executeBatch ?T ?s testWorld)
               = Inl (executeBatchExceptionEpilogue ?T timeoutError (length (parameterList ?s))
                        (fst (snd (executeBatch ?T ?s testWorld))))"
    using thm5 h by blast
  have p3: "StopIfInterrupted \<notin> set (snd (snd (executeBatch (testCollaborators True 0) ?s testWorld)))"
    using thm0 t0 by blast
  show ?thesis using p1 p2 p3 by (simp add: test_defs)
qed

text \<open>
  C7, as stated, fails: with the statement timeout 0 and the interrupt signaled before the
  batch starts, \<open>executeBatch\<close> sends both entries of the batch and makes no cancellation
  check.
\<close>

theorem executeBatch_unchecked_counterexample:
  "queryTimeout (testCollaborators False 0) = 0
   \<and> stopIfInterrupted (testCollaborators False 0) (testWorld\<lparr>interruptFlag := True\<rparr>)
       = Some timeoutError
   \<and> snd (snd (executeBatch (testCollaborators False 0)
        (testStatement 1 [None] [entry ''a'', entry ''b''])
        (testWorld\<lparr>interruptFlag := True\<rparr>)))
     = [CheckClose, LockAcquire, ExecuteQueryPrologue True, SetInternalResults 2,
        ExecuteBatchClient, ExecuteQuery (entry ''a'') None, ExecuteQuery (entry ''b'') None,
        CommandEnd, LockRelease]
   \<and> \<not> checkedBeforeDispatch (snd (snd (executeBatch (testCollaborators False 0)
        (testStatement 1 [None] [entry ''a'', entry ''b''])
        (testWorld\<lparr>interruptFlag := True\<rparr>))))"
  by (simp add: executeBatch_def executeBatchBody_def executeInternalBatch_def
        executeSequential_def batchCatch_def emptyException_def hasMessage_def Let_def
        checkedBeforeDispatch_def test_defs)


text \<open>
  C3.  Whenever \<open>executeBatch\<close> or \<open>executeLargeBatch\<close> returns update counts, it has not
  called the batch epilogue: the \<open>return\<close> inside the \<open>try\<close> block leaves the function, and
  only the \<open>catch\<close> block calls \<open>executeBatchEpilogue\<close>.  On a batch of one entry that the
  server executes, the calls end with \<open>commandEnd\<close> and the release of the lock.  When
  either function raises an error on an open statement, it has called the epilogue.
\<close>

theorem executeBatch_success_skips_epilogue:
  "(fst (executeBatch T this w) = Inr r
      \<longrightarrow> ExecuteBatchEpilogue \<notin> set (snd (snd (executeBatch T this w))))
   \<and> (fst (executeLargeBatch T this w) = Inr r
      \<longrightarrow> ExecuteBatchEpilogue \<notin> set (snd (snd (executeLargeBatch T this w))))
   \<and> (checkClose T w = None \<and> fst (executeBatch T this w) = Inl e
      \<longrightarrow> ExecuteBatchEpilogue \<in> set (snd (snd (executeBatch T this w))))
   \<and> (checkClose T w = None \<and> fst (executeLargeBatch T this w) = Inl e
      \<longrightarrow> ExecuteBatchEpilogue \<in> set (snd (snd (executeLargeBatch T this w))))"
  using executeBatchBody_success_calls[of "getUpdateCounts T" T this w r ExecuteBatchEpilogue]
        executeBatchBody_success_calls[of "getLargeUpdateCounts T" T this w r ExecuteBatchEpilogue]
        executeBatchBody_failure_epilogue[of T w "getUpdateCounts T" this e]
        executeBatchBody_failure_epilogue[of T w "getLargeUpdateCounts T" this e]
  by (auto simp add: executeBatch_def executeLargeBatch_def)

theorem executeBatch_success_skips_epilogue_witness:
  "executeBatch (testCollaborators False 0) (testStatement 1 [None] [entry ''a'']) testWorld
     = (Inr [1], testWorld\<lparr>recordedCounts := [1]\<rparr>,
        [CheckClose, LockAcquire, ExecuteQueryPrologue True, SetInternalResults 1,
         ExecuteBatchClient, ExecuteQuery (entry ''a'') None, CommandEnd, LockRelease])
   \<and> ExecuteBatchEpilogue \<notin> set (snd (snd (executeBatch (testCollaborators False 0)
        (testStatement 1 [None] [entry ''a'']) testWorld)))
   \<and> ExecuteBatchEpilogue \<notin> set (snd (snd (executeLargeBatch (testCollaborators False 0)
        (testStatement 1 [None] [entry ''a'']) testWorld)))
   \<and> fst (executeBatch (testCollaborators False 0) (testStatement 1 [None] [entry ''dup''])
          testWorld) = Inl dupError
   \<and> ExecuteBatchEpilogue \<in> set (snd (snd (executeBatch (testCollaborators False 0)
        (testStatement 1 [None] [entry ''dup'']) testWorld)))
   \<and> ExecuteBatchEpilogue \<in> set (snd (snd (executeLargeBatch (testCollaborators False 0)
        (testStatement 1 [None] [entry ''dup'']) testWorld)))"
proof -
  let ?T = "testCollaborators False 0"
  let ?ok = "testStatement 1 [None] [entry ''a'']"
  let ?ko = "testStatement 1 [None] [entry ''dup'']"
  have e: "executeBatch ?T ?ok testWorld
     = (Inr [1], testWorld\<lparr>recordedCounts := [1]\<rparr>,
        [CheckClose, LockAcquire, ExecuteQueryPrologue True, SetInternalResults 1,
         ExecuteBatchClient, ExecuteQuery (entry ''a'') None, CommandEnd, LockRelease])"
    by (simp add: executeBatch_def executeBatchBody_def executeInternalBatch_def
        executeSequential_def batchCatch_def emptyException_def hasMessage_def Let_def test_defs)
  have l: "fst (executeLargeBatch ?T ?ok testWorld) = Inr [1]"
    by (simp add: executeLargeBatch_def executeBatchBody_def executeInternalBatch_def
        executeSequential_def batchCatch_def emptyException_def hasMessage_def Let_def test_defs)
  have b: "fst (executeBatch ?T ?ok testWorld) = Inr [1]"
    using e by simp
  have c: "checkClose ?T testWorld = None" by (simp add: test_defs)
  have f: "fst (executeBatch ?T ?ko testWorld) = Inl dupError"
    by (simp add: executeBatch_def executeBatchBody_def executeInternalBatch_def
        executeSequential_def batchCatch_def emptyException_def hasMessage_def Let_def test_defs)
  have g: "fst (executeLargeBatch ?T ?ko testWorld) = Inl dupError"
    by (simp add: executeLargeBatch_def executeBatchBody_def executeInternalBatch_def
        executeSequential_def batchCatch_def emptyException_def hasMessage_def Let_def test_defs)
  show ?thesis
    using executeBatch_success_skips_epilogue[of ?T ?ok testWorld "[1]"]
          executeBatch_success_skips_epilogue[of ?T ?ko testWorld _ dupError] e l b c f g
    by blast
qed

text \<open>
  C8, amended.  For every statement that is not closed (\<open>checkClose\<close> returns) and whose
  batch queue is empty, \<open>executeBatch\<close> (and \<open>executeLargeBatch\<close>) returns the empty
  sequence of update counts, leaves the collaborators as they were, and its only call is
  \<open>checkClose\<close>: the lock is not acquired and the transport is not called.
\<close>

theorem executeBatch_empty_queue:
  assumes "parameterList this = []" and "checkClose T w = None"
  shows "executeBatch T this w = (Inr [], w, [CheckClose])
       \<and> executeLargeBatch T this w = (Inr [], w, [CheckClose])
       \<and> LockAcquire \<notin> set (snd (snd (executeBatch T this w)))
       \<and> filter isTransportCall (snd (snd (executeBatch T this w))) = []"
  using assms by (simp add: executeBatch_def executeLargeBatch_def executeBatchBody_def)

theorem executeBatch_empty_queue_witness:
  "executeBatch (testCollaborators False 0) (testStatement 1 [None] []) testWorld
     = (Inr [], testWorld, [CheckClose])"
proof -
  have a: "parameterList (testStatement 1 [None] []) = []" by (simp add: test_defs)
  have b: "checkClose (testCollaborators False 0) testWorld = None" by (simp add: test_defs)
  show ?thesis using executeBatch_empty_queue[OF a b] by simp
qed

text \<open>
  C8, as stated, fails: on a closed statement with an empty batch queue \<open>executeBatch\<close>
  raises the error of \<open>checkClose\<close> (line 192 comes before the test of the queue size; the
  doc comments of the file promise an \<open>SQLException\<close> when a method "is called on a closed
  PreparedStatement").
\<close>

theorem executeBatch_empty_queue_closed_counterexample:
  "parameterList (testStatement 1 [None] []) = []
   \<and> executeBatch (testCollaborators False 0) (testStatement 1 [None] [])
        (testWorld\<lparr>statementClosed := True\<rparr>)
      = (Inl closedError, testWorld\<lparr>statementClosed := True\<rparr>, [CheckClose])
   \<and> fst (executeBatch (testCollaborators False 0) (testStatement 1 [None] [])
        (testWorld\<lparr>statementClosed := True\<rparr>)) \<noteq> Inr []"
  by (simp add: executeBatch_def executeBatchBody_def test_defs)

section \<open>Metadata: properties\<close>

text \<open>
  \<open>loadParametersData\<close> throws nothing, leaves \<open>parameterMetaData\<close> set, and makes one
  server-side prepare; when its \<open>try\<close> block throws, \<open>parameterMetaData\<close> is the
  \<open>SimpleParameterMetaData\<close> of the parameter count.
\<close>

lemma loadParametersData_sets:
  "fst (loadParametersData T this w) = None
   \<and> parameterMetaData (fst (snd (loadParametersData T this w))) \<noteq> None
   \<and> snd (snd (snd (loadParametersData T this w))) = [ServerPrepare]
   \<and> prepareResult (fst (snd (loadParametersData T this w))) = prepareResult this"
  by (simp add: loadParametersData_def loadParametersData_try_def case_prod_beta
           split: option.splits sum.splits)

lemma loadParametersData_degrades:
  "fst (loadParametersData_try T this w) = Some e \<Longrightarrow>
   parameterMetaData (fst (snd (loadParametersData T this w)))
     = Some (SimpleParameterMetaData (getParamCount (prepareResult this)))"
  by (auto simp add: loadParametersData_def loadParametersData_try_def case_prod_beta
           split: option.splits sum.splits)

text \<open>
  C9.  \<open>loadParametersData\<close> never throws; \<open>getParameterMetaData\<close> raises nothing but what
  \<open>checkClose\<close> raises, and on an open statement it returns a metadata object.  When the
  \<open>try\<close> block of the server-side prepare throws, the object returned is the
  \<open>SimpleParameterMetaData\<close> of the parameter count.  Two consecutive calls of
  \<open>getParameterMetaData\<close>, the second on the object and the collaborators as the first left
  them, make at most one server-side prepare between them.
\<close>

theorem getParameterMetaData_memoized:
  "fst (loadParametersData T this w) = None
   \<and> fst (getParameterMetaData T this w)
       = (case checkClose T w of
            Some e \<Rightarrow> Inl e
          | None \<Rightarrow> Inr (parameterMetaData (fst (snd (getParameterMetaData T this w)))))
   \<and> (checkClose T w = None
        \<longrightarrow> parameterMetaData (fst (snd (getParameterMetaData T this w))) \<noteq> None)
   \<and> (checkClose T w = None \<and> parameterMetaData this = None
        \<and> fst (loadParametersData_try T this w) = Some e
        \<longrightarrow> fst (getParameterMetaData T this w)
              = Inr (Some (SimpleParameterMetaData (getParamCount (prepareResult this)))))
   \<and> count_list
        (snd (snd (snd (getParameterMetaData T this w)))
         @ snd (snd (snd (getParameterMetaData T
                   (fst (snd (getParameterMetaData T this w)))
                   (fst (snd (snd (getParameterMetaData T this w)))))))) ServerPrepare
       \<le> 1"
proof (intro conjI impI)
  show "fst (loadParametersData T this w) = None" by (simp add: loadParametersData_sets)
  show "fst (getParameterMetaData T this w)
       = (case checkClose T w of
            Some e \<Rightarrow> Inl e
          | None \<Rightarrow> Inr (parameterMetaData (fst (snd (getParameterMetaData T this w)))))"
    by (simp add: getParameterMetaData_def case_prod_beta loadParametersData_sets
             split: option.splits)
  show "parameterMetaData (fst (snd (getParameterMetaData T this w))) \<noteq> None"
    if "checkClose T w = None"
    using that loadParametersData_sets[of T this w]
    by (auto simp add: getParameterMetaData_def case_prod_beta split: option.splits)
  show "fst (getParameterMetaData T this w)
              = Inr (Some (SimpleParameterMetaData (getParamCount (prepareResult this))))"
    if "checkClose T w = None \<and> parameterMetaData this = None
        \<and> fst (loadParametersData_try T this w) = Some e"
    using that loadParametersData_degrades[of T this w e] loadParametersData_sets[of T this w]
    by (simp add: getParameterMetaData_def case_prod_beta)
  show "count_list
        (snd (snd (snd (getParameterMetaData T this w)))
         @ snd (snd (snd (getParameterMetaData T
                   (fst (snd (getParameterMetaData T this w)))
                   (fst (snd (snd (getParameterMetaData T this w)))))))) ServerPrepare
       \<le> 1"
  proof (cases "checkClose T w")
    case (Some e)
    then show ?thesis by (simp add: getParameterMetaData_def)
  next
    case None
    show ?thesis
    proof (cases "parameterMetaData this")
      case (Some pmd)
      with None show ?thesis
        by (simp add: getParameterMetaData_def split: option.splits)
    next
      case pm: None
      have first: "getParameterMetaData T this w
          = (Inr (parameterMetaData (fst (snd (loadParametersData T this w)))),
             fst (snd (loadParametersData T this w)),
             fst (snd (snd (loadParametersData T this w))),
             [CheckClose, ServerPrepare])"
        using None pm loadParametersData_sets[of T this w]
        by (simp add: getParameterMetaData_def case_prod_beta)
      have isSet: "parameterMetaData (fst (snd (loadParametersData T this w))) \<noteq> None"
        using loadParametersData_sets[of T this w] by simp
      have second: "ServerPrepare \<notin> set (snd (snd (snd (getParameterMetaData T
                   (fst (snd (loadParametersData T this w)))
                   (fst (snd (snd (loadParametersData T this w))))))))"
        using isSet by (auto simp add: getParameterMetaData_def split: option.splits)
      then have "count_list (snd (snd (snd (getParameterMetaData T
                   (fst (snd (loadParametersData T this w)))
                   (fst (snd (snd (loadParametersData T this w)))))))) ServerPrepare = 0"
        by (simp add: count_list_0_iff)
      then show ?thesis using first by simp
    qed
  qed
qed

theorem getParameterMetaData_memoized_witness:
  "getParameterMetaData (testCollaborators False 0) (testStatement 1 [None] [])
      (testWorld\<lparr>prepareFails := True\<rparr>)
     = (Inr (Some (SimpleParameterMetaData 1)),
        (testStatement 1 [None] [])\<lparr>parameterMetaData := Some (SimpleParameterMetaData 1)\<rparr>,
        testWorld\<lparr>prepareFails := True\<rparr>, [CheckClose, ServerPrepare])
   \<and> snd (snd (snd (getParameterMetaData (testCollaborators False 0)
        ((testStatement 1 [None] [])\<lparr>parameterMetaData := Some (SimpleParameterMetaData 1)\<rparr>)
        (testWorld\<lparr>prepareFails := True\<rparr>))))
     = [CheckClose]"
proof -
  let ?T = "testCollaborators False 0"
  let ?s = "testStatement 1 [None] []"
  let ?w = "testWorld\<lparr>prepareFails := True\<rparr>"
  have a: "checkClose ?T ?w = None \<and> parameterMetaData ?s = None
        \<and> fst (loadParametersData_try ?T ?s ?w) = Some unsupportedError"
    by (simp add: loadParametersData_try_def test_defs)
  have c: "checkClose ?T ?w = None" using a by simp
  note inst = getParameterMetaData_memoized[of ?T ?s ?w unsupportedError]
  have r: "fst (getParameterMetaData ?T ?s ?w)
             = Inr (Some (SimpleParameterMetaData (getParamCount (prepareResult ?s))))"
    using inst a by blast
  have n: "parameterMetaData (fst (snd (getParameterMetaData ?T ?s ?w))) \<noteq> None"
    using inst c by blast
  have full: "getParameterMetaData ?T ?s ?w
     = (Inr (Some (SimpleParameterMetaData 1)),
        ?s\<lparr>parameterMetaData := Some (SimpleParameterMetaData 1)\<rparr>, ?w, [CheckClose, ServerPrepare])"
    by (simp add: getParameterMetaData_def loadParametersData_def loadParametersData_try_def
          test_defs)
  have again: "snd (snd (snd (getParameterMetaData ?T
        (?s\<lparr>parameterMetaData := Some (SimpleParameterMetaData 1)\<rparr>) ?w))) = [CheckClose]"
    by (simp add: getParameterMetaData_def test_defs)
  show ?thesis using r n full again by simp
qed

end
